theory Spec2Isabelle
  imports Main
begin

section \<open>JavaScript values the dashboard script computes with\<close>

text \<open>
  The dashboard script \<^verbatim>\<open>sites/focusdash_site/app.js\<close> exists in two versions: the
  feature-complete script and a defensive rewrite of its storage adapter and timer whose
  list functions are empty stubs. Functions of the rewrite carry the suffix \<open>_v2\<close>.

  Strings are lists of 8-bit code units. Numbers are the integers and \<open>NaN\<close>: the
  script only ever produces integers (minutes, seconds, streaks) or \<open>NaN\<close> (from
  \<^verbatim>\<open>parseInt\<close>), and \<open>Math.max\<close>, \<open>Math.min\<close>, \<open>-\<close> and \<open>*\<close> propagate \<open>NaN\<close>.
\<close>

datatype js_error = ReferenceError | SecurityError | QuotaExceededError | SyntaxError | TypeError

datatype jsnum = Num int | NaN

fun Math_max :: "jsnum \<Rightarrow> jsnum \<Rightarrow> jsnum" where
  "Math_max (Num a) (Num b) = Num (max a b)"
| "Math_max _ _ = NaN"

fun Math_min :: "jsnum \<Rightarrow> jsnum \<Rightarrow> jsnum" where
  "Math_min (Num a) (Num b) = Num (min a b)"
| "Math_min _ _ = NaN"

fun js_minus :: "jsnum \<Rightarrow> jsnum \<Rightarrow> jsnum" where
  "js_minus (Num a) (Num b) = Num (a - b)"
| "js_minus _ _ = NaN"

fun js_times :: "jsnum \<Rightarrow> jsnum \<Rightarrow> jsnum" where
  "js_times (Num a) (Num b) = Num (a * b)"
| "js_times _ _ = NaN"

text \<open>\<^verbatim>\<open>Math.floor(a / b)\<close> and \<^verbatim>\<open>a % b\<close> for a positive divisor \<open>b\<close>; the remainder of
  JavaScript takes the sign of the dividend.\<close>

fun floor_div :: "jsnum \<Rightarrow> int \<Rightarrow> jsnum" where
  "floor_div (Num a) b = Num (a div b)"
| "floor_div NaN b = NaN"

fun js_rem :: "jsnum \<Rightarrow> int \<Rightarrow> jsnum" where
  "js_rem (Num a) b = Num (if 0 \<le> a then a mod b else - ((- a) mod b))"
| "js_rem NaN b = NaN"

text \<open>Truthiness of a number, its negation \<^verbatim>\<open>!n\<close> (which holds for \<open>0\<close> and \<open>NaN\<close>) and the comparisons
  \<^verbatim>\<open><\<close>, \<^verbatim>\<open>>\<close>, which are false whenever an operand is \<open>NaN\<close>.\<close>

fun truthy :: "jsnum \<Rightarrow> bool" where
  "truthy (Num n) = (n \<noteq> 0)"
| "truthy NaN = False"

fun js_not :: "jsnum \<Rightarrow> bool" where
  "js_not (Num n) = (n = 0)"
| "js_not NaN = True"

fun js_less :: "jsnum \<Rightarrow> jsnum \<Rightarrow> bool" where
  "js_less (Num a) (Num b) = (a < b)"
| "js_less _ _ = False"

text \<open>\<^verbatim>\<open>x || d\<close> for a numeric property \<open>x\<close> that may be missing (\<open>None\<close> stands for
  \<^verbatim>\<open>undefined\<close> and \<^verbatim>\<open>null\<close>): the default replaces a missing value and \<open>0\<close>.\<close>

fun or_default :: "int option \<Rightarrow> int \<Rightarrow> int" where
  "or_default None d = d"
| "or_default (Some n) d = (if n = 0 then d else n)"

text \<open>\<^verbatim>\<open>String(n)\<close>: decimal digits, a minus sign for negative numbers, \<^verbatim>\<open>"NaN"\<close>.\<close>

fun nat_digits :: "nat \<Rightarrow> string" where
  "nat_digits n =
     (if n < 10 then [''0123456789'' ! n]
      else nat_digits (n div 10) @ [''0123456789'' ! (n mod 10)])"

declare nat_digits.simps [simp del]

fun js_String :: "jsnum \<Rightarrow> string" where
  "js_String (Num i) = (if i < 0 then CHR ''-'' # nat_digits (nat (- i)) else nat_digits (nat i))"
| "js_String NaN = ''NaN''"

text \<open>\<^verbatim>\<open>s.padStart(2, "0")\<close>.\<close>

definition padStart2 :: "string \<Rightarrow> string" where
  "padStart2 s = replicate (2 - length s) (CHR ''0'') @ s"

text \<open>White space as \<^verbatim>\<open>trim\<close> and \<^verbatim>\<open>parseInt\<close> strip it, among the 8-bit code units:
  TAB, LF, VT, FF, CR, SP and NBSP.\<close>

definition white_space :: "char \<Rightarrow> bool" where
  "white_space c \<longleftrightarrow> of_char c \<in> set [9, 10, 11, 12, 13, 32, 160 :: nat]"

definition trim :: "string \<Rightarrow> string" where
  "trim s = rev (dropWhile white_space (rev (dropWhile white_space s)))"

text \<open>\<^verbatim>\<open>parseInt(str, 10)\<close>: skip leading white space, read an optional sign, then the
  longest run of decimal digits; \<open>NaN\<close> when that run is empty. Whatever follows the digits
  is ignored.\<close>

definition decimal_digit :: "char \<Rightarrow> bool" where
  "decimal_digit c \<longleftrightarrow> 48 \<le> (of_char c :: nat) \<and> (of_char c :: nat) \<le> 57"

definition digits_value :: "string \<Rightarrow> int" where
  "digits_value Z = foldl (\<lambda>a c. 10 * a + (int (of_char c) - 48)) 0 Z"

definition parseInt :: "string \<Rightarrow> jsnum" where
  "parseInt str =
     (let S = dropWhile white_space str;
          negative = (case S of [] \<Rightarrow> False | c # _ \<Rightarrow> c = CHR ''-'');
          S' = (case S of [] \<Rightarrow> [] | c # r \<Rightarrow> if c = CHR ''+'' \<or> c = CHR ''-'' then r else S);
          Z = takeWhile decimal_digit S'
      in if Z = [] then NaN
         else Num ((if negative then - 1 else 1) * digits_value Z))"

text \<open>\<^verbatim>\<open>fmt2\<close> of the first script (\<^verbatim>\<open>String(n).padStart(2, "0")\<close>) and of the rewrite
  (\<^verbatim>\<open>n = Number(n) || 0; (n < 10 ? "0" : "") + String(n)\<close>).\<close>

definition fmt2 :: "jsnum \<Rightarrow> string" where
  "fmt2 n = padStart2 (js_String n)"

definition fmt2_v2 :: "jsnum \<Rightarrow> string" where
  "fmt2_v2 n0 =
     (let n = (if truthy n0 then n0 else Num 0)
      in (if js_less n (Num 10) then ''0'' else '''') @ js_String n)"

text \<open>The local calendar date \<^verbatim>\<open>new Date()\<close> reads, by the three getters the script calls.\<close>

record date =
  getFullYear :: int
  getMonth :: int
  getDate :: int

definition todayISO :: "date \<Rightarrow> string" where
  "todayISO d =
     js_String (Num (getFullYear d)) @ ''-'' @ fmt2 (Num (getMonth d + 1)) @ ''-''
       @ fmt2 (Num (getDate d))"

definition todayISO_v2 :: "date \<Rightarrow> string" where
  "todayISO_v2 d =
     js_String (Num (getFullYear d)) @ ''-'' @ fmt2_v2 (Num (getMonth d + 1)) @ ''-''
       @ fmt2_v2 (Num (getDate d))"

section \<open>The durable store adapter\<close>

text \<open>
  \<^verbatim>\<open>localStorage\<close>: the identifier may be undeclared (evaluating it throws a
  \<open>ReferenceError\<close>, \<^verbatim>\<open>typeof\<close> yields \<^verbatim>\<open>"undefined"\<close>), its getter may be blocked (every
  access throws a \<open>SecurityError\<close>), or the object is there; then \<^verbatim>\<open>getItem\<close> returns the
  stored string or \<^verbatim>\<open>null\<close>, and \<^verbatim>\<open>setItem\<close> stores the string unless the browser
  refuses the write (quota), which throws.
\<close>

datatype availability = Undeclared | Blocked | Available

record storage =
  avail :: availability
  entries :: "string \<Rightarrow> string option"
  accepts :: "string \<Rightarrow> string \<Rightarrow> bool"

definition getItem :: "storage \<Rightarrow> string \<Rightarrow> js_error + string option" where
  "getItem st k =
     (case avail st of
        Undeclared \<Rightarrow> Inl ReferenceError
      | Blocked \<Rightarrow> Inl SecurityError
      | Available \<Rightarrow> Inr (entries st k))"

definition setItem :: "storage \<Rightarrow> string \<Rightarrow> string \<Rightarrow> js_error + storage" where
  "setItem st k str =
     (case avail st of
        Undeclared \<Rightarrow> Inl ReferenceError
      | Blocked \<Rightarrow> Inl SecurityError
      | Available \<Rightarrow>
          if accepts st k str then Inr (st\<lparr>entries := (entries st)(k \<mapsto> str)\<rparr>)
          else Inl QuotaExceededError)"

text \<open>
  \<^verbatim>\<open>JSON.parse\<close> and \<^verbatim>\<open>JSON.stringify\<close> at the type of one collection. They are
  parameters of everything below: \<open>None\<close> from \<open>JSON_parse\<close> is the \<open>SyntaxError\<close> of a
  corrupt string, \<open>None\<close> from \<open>JSON_stringify\<close> the \<open>TypeError\<close> of a value that cannot
  be serialised.
\<close>

record 'a json_codec =
  JSON_parse :: "string \<Rightarrow> 'a option"
  JSON_stringify :: "'a \<Rightarrow> string option"

text \<open>The body of the \<^verbatim>\<open>try\<close> block of \<^verbatim>\<open>loadJSON\<close>, and the function with its
  \<^verbatim>\<open>catch\<close>. An empty string is falsy, so it yields the fallback like \<^verbatim>\<open>null\<close>.\<close>

definition loadJSON_try :: "'a json_codec \<Rightarrow> storage \<Rightarrow> string \<Rightarrow> 'a \<Rightarrow> js_error + 'a" where
  "loadJSON_try J st k fallback =
     (case getItem st k of
        Inl e \<Rightarrow> Inl e
      | Inr None \<Rightarrow> Inr fallback
      | Inr (Some raw) \<Rightarrow>
          if raw = [] then Inr fallback
          else (case JSON_parse J raw of None \<Rightarrow> Inl SyntaxError | Some v \<Rightarrow> Inr v))"

definition loadJSON :: "'a json_codec \<Rightarrow> storage \<Rightarrow> string \<Rightarrow> 'a \<Rightarrow> 'a" where
  "loadJSON J st k fallback =
     (case loadJSON_try J st k fallback of Inl e \<Rightarrow> fallback | Inr v \<Rightarrow> v)"

definition saveJSON_try :: "'a json_codec \<Rightarrow> storage \<Rightarrow> string \<Rightarrow> 'a \<Rightarrow> js_error + storage" where
  "saveJSON_try J st k v =
     (case avail st of
        Undeclared \<Rightarrow> Inl ReferenceError
      | Blocked \<Rightarrow> Inl SecurityError
      | Available \<Rightarrow>
          (case JSON_stringify J v of None \<Rightarrow> Inl TypeError | Some str \<Rightarrow> setItem st k str))"

definition saveJSON :: "'a json_codec \<Rightarrow> storage \<Rightarrow> string \<Rightarrow> 'a \<Rightarrow> storage" where
  "saveJSON J st k v = (case saveJSON_try J st k v of Inl e \<Rightarrow> st | Inr st' \<Rightarrow> st')"

text \<open>The rewrite asks \<^verbatim>\<open>typeof localStorage !== "undefined"\<close> first: an undeclared
  identifier then reads as \<^verbatim>\<open>null\<close> and skips the write, without an exception.\<close>

definition loadJSON_v2_try :: "'a json_codec \<Rightarrow> storage \<Rightarrow> string \<Rightarrow> 'a \<Rightarrow> js_error + 'a" where
  "loadJSON_v2_try J st k fallback =
     (case (case avail st of
              Undeclared \<Rightarrow> Inr None
            | Blocked \<Rightarrow> Inl SecurityError
            | Available \<Rightarrow> getItem st k) of
        Inl e \<Rightarrow> Inl e
      | Inr None \<Rightarrow> Inr fallback
      | Inr (Some raw) \<Rightarrow>
          if raw = [] then Inr fallback
          else (case JSON_parse J raw of None \<Rightarrow> Inl SyntaxError | Some v \<Rightarrow> Inr v))"

definition loadJSON_v2 :: "'a json_codec \<Rightarrow> storage \<Rightarrow> string \<Rightarrow> 'a \<Rightarrow> 'a" where
  "loadJSON_v2 J st k fallback =
     (case loadJSON_v2_try J st k fallback of Inl e \<Rightarrow> fallback | Inr v \<Rightarrow> v)"

definition saveJSON_v2_try :: "'a json_codec \<Rightarrow> storage \<Rightarrow> string \<Rightarrow> 'a \<Rightarrow> js_error + storage" where
  "saveJSON_v2_try J st k v =
     (case avail st of
        Undeclared \<Rightarrow> Inr st
      | Blocked \<Rightarrow> Inl SecurityError
      | Available \<Rightarrow>
          (case JSON_stringify J v of None \<Rightarrow> Inl TypeError | Some str \<Rightarrow> setItem st k str))"

definition saveJSON_v2 :: "'a json_codec \<Rightarrow> storage \<Rightarrow> string \<Rightarrow> 'a \<Rightarrow> storage" where
  "saveJSON_v2 J st k v = (case saveJSON_v2_try J st k v of Inl e \<Rightarrow> st | Inr st' \<Rightarrow> st')"

section \<open>Collections, the page and the state of the script\<close>

text \<open>
  The three collections hold the objects the script writes: \<^verbatim>\<open>{text, done, minutes}\<close>,
  \<^verbatim>\<open>{name, milestones}\<close> with \<^verbatim>\<open>{text, done}\<close>, and \<^verbatim>\<open>{name, streak, lastDone}\<close>.
  A property the script reads through \<^verbatim>\<open>||\<close> or compares with \<^verbatim>\<open>===\<close> may be missing or
  \<^verbatim>\<open>null\<close>: it is an option.
\<close>

record task =
  task_text :: string
  task_done :: bool
  task_minutes :: "int option"

record milestone =
  ms_text :: string
  ms_done :: bool

record project =
  proj_name :: string
  proj_milestones :: "milestone list option"

record habit =
  habit_name :: string
  habit_streak :: "int option"
  habit_lastDone :: "string option"

text \<open>
  What a render leaves in the page. A rendered task list is its \<^verbatim>\<open>li\<close> items (checkbox,
  text, minutes label) together with the array \<^verbatim>\<open>tasks\<close> the checkbox listeners close
  over; a rendered projects view is its cards (heading and the text typed into the card's
  milestone input) with the captured array \<^verbatim>\<open>projects\<close>; a rendered habits view is its
  cards with the string \<^verbatim>\<open>today\<close> the button listeners close over.
\<close>

record task_li =
  li_checked :: bool
  li_text :: string
  li_small :: string

record task_view =
  ul_items :: "task_li list"
  ul_tasks :: "task list"

record project_card =
  pc_h3 :: string
  pc_inp :: string

record projects_view =
  pw_cards :: "project_card list"
  pw_projects :: "project list"

record habit_card =
  hc_h3 :: string
  hc_btn_text :: string
  hc_btn_class :: string

record habits_view =
  hw_cards :: "habit_card list"
  hw_today :: string

text \<open>
  The elements \<^verbatim>\<open>$(id)\<close> looks up, each \<open>None\<close> when the page has no element of that
  id: text content for the output elements, \<^verbatim>\<open>value\<close> for the inputs, the rendered view for
  the three containers.
\<close>

record page =
  todayDate :: "string option"
  plannedMinutes :: "string option"
  completedMinutes :: "string option"
  taskList :: "task_view option"
  taskInput :: "string option"
  timerLabel :: "string option"
  timerDisplay :: "string option"
  focusMin :: "string option"
  breakMin :: "string option"
  projectsWrap :: "projects_view option"
  projName :: "string option"
  habitsWrap :: "habits_view option"
  habitName :: "string option"

datatype timer_mode = Focus | Break

text \<open>
  The state the script runs in: the page, \<^verbatim>\<open>localStorage\<close>, the calendar date of the
  clock, the three globals \<^verbatim>\<open>timerMode\<close>, \<^verbatim>\<open>remaining\<close>, \<^verbatim>\<open>tick\<close> (\<open>None\<close> is
  \<^verbatim>\<open>null\<close>), and the browser's interval timers: the handles of the active ones and the
  number of handles issued so far (\<^verbatim>\<open>setInterval\<close> returns an integer greater than zero).
\<close>

record app =
  doc :: page
  store :: storage
  clock :: date
  timerMode :: timer_mode
  remaining :: jsnum
  tick :: "nat option"
  intervals :: "nat list"
  issued :: nat

section \<open>Tasks\<close>

text \<open>The two sums of \<^verbatim>\<open>updateKPIs\<close>, by \<^verbatim>\<open>reduce\<close> over all tasks and over the done
  ones.\<close>

definition planned :: "task list \<Rightarrow> int" where
  "planned tasks = foldl (\<lambda>a t. a + or_default (task_minutes t) 0) 0 tasks"

definition completed :: "task list \<Rightarrow> int" where
  "completed tasks = foldl (\<lambda>a t. a + or_default (task_minutes t) 0) 0 (filter task_done tasks)"

definition updateKPIs :: "task list json_codec \<Rightarrow> app \<Rightarrow> app" where
  "updateKPIs J s =
     (let tasks = loadJSON J (store s) ''fd_tasks'' []
      in s\<lparr>doc := (doc s)
           \<lparr>todayDate := map_option (\<lambda>_. todayISO (clock s)) (todayDate (doc s)),
            plannedMinutes :=
              map_option (\<lambda>_. js_String (Num (planned tasks)) @ '' min'') (plannedMinutes (doc s)),
            completedMinutes :=
              map_option (\<lambda>_. js_String (Num (completed tasks)) @ '' min'')
                (completedMinutes (doc s))\<rparr>\<rparr>)"

text \<open>The \<^verbatim>\<open>li\<close> that \<^verbatim>\<open>renderTasks\<close> builds for one task, and the render: nothing
  without the list element, else the items of \<^verbatim>\<open>tasks.slice(0,3)\<close> of a fresh load.\<close>

definition task_item :: "task \<Rightarrow> task_li" where
  "task_item t =
     \<lparr>li_checked = task_done t, li_text = task_text t,
      li_small = js_String (Num (or_default (task_minutes t) 25)) @ '' min''\<rparr>"

definition task_view_of :: "task list \<Rightarrow> task_view" where
  "task_view_of tasks = \<lparr>ul_items = map task_item (take 3 tasks), ul_tasks = tasks\<rparr>"

definition renderTasks :: "task list json_codec \<Rightarrow> app \<Rightarrow> app" where
  "renderTasks J s =
     (case taskList (doc s) of
        None \<Rightarrow> s
      | Some _ \<Rightarrow>
          (let tasks = loadJSON J (store s) ''fd_tasks'' []
           in s\<lparr>doc := (doc s)\<lparr>taskList := Some (task_view_of tasks)\<rparr>\<rparr>))"

text \<open>
  The \<^verbatim>\<open>change\<close> listener of the checkbox of item \<open>idx\<close>: the browser has flipped the
  checkbox, the listener writes its state into the captured array, saves that array and
  re-renders. Without such an item there is no checkbox to change. An index outside the
  captured array would throw the \<open>TypeError\<close> of \<^verbatim>\<open>tasks[idx].done\<close> on \<^verbatim>\<open>undefined\<close>.
\<close>

definition checkbox_change :: "task list json_codec \<Rightarrow> nat \<Rightarrow> app \<Rightarrow> js_error + app" where
  "checkbox_change J idx s =
     (case taskList (doc s) of
        None \<Rightarrow> Inr s
      | Some view \<Rightarrow>
          if length (ul_items view) \<le> idx then Inr s
          else
            (let checked = \<not> li_checked (ul_items view ! idx);
                 tasks = ul_tasks view
             in if length tasks \<le> idx then Inl TypeError
                else
                  (let tasks' = tasks[idx := (tasks ! idx)\<lparr>task_done := checked\<rparr>];
                       s1 = s\<lparr>store := saveJSON J (store s) ''fd_tasks'' tasks'\<rparr>
                   in Inr (renderTasks J (updateKPIs J s1)))))"

definition addTask :: "task list json_codec \<Rightarrow> app \<Rightarrow> app" where
  "addTask J s =
     (case taskInput (doc s) of
        None \<Rightarrow> s
      | Some inp_value \<Rightarrow>
          (let txt = trim inp_value
           in if txt = [] then s
              else
                (let tasks = loadJSON J (store s) ''fd_tasks'' [];
                     tasks' = \<lparr>task_text = txt, task_done = False, task_minutes = Some 25\<rparr> # tasks;
                     s1 = s\<lparr>store := saveJSON J (store s) ''fd_tasks'' tasks'\<rparr>;
                     s2 = s1\<lparr>doc := (doc s1)\<lparr>taskInput := Some []\<rparr>\<rparr>
                 in renderTasks J (updateKPIs J s2))))"

text \<open>The click listeners of \<^verbatim>\<open>clearDoneBtn\<close> and \<^verbatim>\<open>wipeAllBtn\<close>.\<close>

definition clearDone_click :: "task list json_codec \<Rightarrow> app \<Rightarrow> app" where
  "clearDone_click J s =
     (let tasks = filter (\<lambda>t. \<not> task_done t) (loadJSON J (store s) ''fd_tasks'' []);
          s1 = s\<lparr>store := saveJSON J (store s) ''fd_tasks'' tasks\<rparr>
      in renderTasks J (updateKPIs J s1))"

definition wipeAll_click :: "task list json_codec \<Rightarrow> app \<Rightarrow> app" where
  "wipeAll_click J s =
     (let s1 = s\<lparr>store := saveJSON J (store s) ''fd_tasks'' []\<rparr>
      in renderTasks J (updateKPIs J s1))"

section \<open>Projects\<close>

definition project_card_of :: "project \<Rightarrow> project_card" where
  "project_card_of p = \<lparr>pc_h3 = proj_name p, pc_inp = []\<rparr>"

definition projects_view_of :: "project list \<Rightarrow> projects_view" where
  "projects_view_of projects =
     \<lparr>pw_cards = map project_card_of projects, pw_projects = projects\<rparr>"

definition renderProjects :: "project list json_codec \<Rightarrow> app \<Rightarrow> app" where
  "renderProjects J s =
     (case projectsWrap (doc s) of
        None \<Rightarrow> s
      | Some _ \<Rightarrow>
          (let projects = loadJSON J (store s) ''fd_projects'' []
           in s\<lparr>doc := (doc s)\<lparr>projectsWrap := Some (projects_view_of projects)\<rparr>\<rparr>))"

text \<open>
  The \<^verbatim>\<open>click\<close> listener of the \<^verbatim>\<open>Add milestone\<close> button of card \<open>idx\<close>: it reads the
  card's own input, prepends a milestone to \<^verbatim>\<open>projects[idx]\<close> of the captured array, saves
  that array and re-renders.
\<close>

definition milestone_click :: "project list json_codec \<Rightarrow> nat \<Rightarrow> app \<Rightarrow> js_error + app" where
  "milestone_click J idx s =
     (case projectsWrap (doc s) of
        None \<Rightarrow> Inr s
      | Some view \<Rightarrow>
          if length (pw_cards view) \<le> idx then Inr s
          else
            (let txt = trim (pc_inp (pw_cards view ! idx))
             in if txt = [] then Inr s
                else
                  (let projects = pw_projects view
                   in if length projects \<le> idx then Inl TypeError
                      else
                        (let p = projects ! idx;
                             ms = (case proj_milestones p of None \<Rightarrow> [] | Some m \<Rightarrow> m);
                             projects' =
                               projects[idx := p\<lparr>proj_milestones :=
                                 Some (\<lparr>ms_text = txt, ms_done = False\<rparr> # ms)\<rparr>];
                             s1 = s\<lparr>store := saveJSON J (store s) ''fd_projects'' projects'\<rparr>
                         in Inr (renderProjects J s1)))))"

definition addProject :: "project list json_codec \<Rightarrow> app \<Rightarrow> app" where
  "addProject J s =
     (case projName (doc s) of
        None \<Rightarrow> s
      | Some inp_value \<Rightarrow>
          (let name = trim inp_value
           in if name = [] then s
              else
                (let projects = loadJSON J (store s) ''fd_projects'' [];
                     projects' = \<lparr>proj_name = name, proj_milestones = Some []\<rparr> # projects;
                     s1 = s\<lparr>store := saveJSON J (store s) ''fd_projects'' projects'\<rparr>;
                     s2 = s1\<lparr>doc := (doc s1)\<lparr>projName := Some []\<rparr>\<rparr>
                 in renderProjects J s2)))"

section \<open>Habits\<close>

text \<open>The button of a habit card reads \<^verbatim>\<open>Done today\<close>, followed by a check mark (here
  the three bytes of its UTF-8 form) when the habit's \<^verbatim>\<open>lastDone\<close> is the render's
  \<^verbatim>\<open>today\<close>.\<close>

definition habit_card_of :: "string \<Rightarrow> habit \<Rightarrow> habit_card" where
  "habit_card_of today h =
     \<lparr>hc_h3 = habit_name h,
      hc_btn_text =
        (if habit_lastDone h = Some today then ''Done today '' @ [CHR 0xE2, CHR 0x9C, CHR 0x93]
         else ''Done today''),
      hc_btn_class = (if habit_lastDone h = Some today then ''secondary'' else [])\<rparr>"

definition habits_view_of :: "string \<Rightarrow> habit list \<Rightarrow> habits_view" where
  "habits_view_of today habits =
     \<lparr>hw_cards = map (habit_card_of today) habits, hw_today = today\<rparr>"

definition renderHabits :: "habit list json_codec \<Rightarrow> app \<Rightarrow> app" where
  "renderHabits J s =
     (case habitsWrap (doc s) of
        None \<Rightarrow> s
      | Some _ \<Rightarrow>
          (let habits = loadJSON J (store s) ''fd_habits'' [];
               today = todayISO (clock s)
           in s\<lparr>doc := (doc s)\<lparr>habitsWrap := Some (habits_view_of today habits)\<rparr>\<rparr>))"

text \<open>
  The \<^verbatim>\<open>click\<close> listener of the button of habit card \<open>idx\<close>. It loads the collection
  anew, but \<^verbatim>\<open>today\<close> is the constant of the render that built the button. On an index
  outside the loaded collection \<^verbatim>\<open>hs[idx].lastDone\<close> throws.
\<close>

definition habit_click :: "habit list json_codec \<Rightarrow> nat \<Rightarrow> app \<Rightarrow> js_error + app" where
  "habit_click J idx s =
     (case habitsWrap (doc s) of
        None \<Rightarrow> Inr s
      | Some view \<Rightarrow>
          if length (hw_cards view) \<le> idx then Inr s
          else
            (let hs = loadJSON J (store s) ''fd_habits'' [];
                 today = hw_today view
             in if length hs \<le> idx then Inl TypeError
                else if habit_lastDone (hs ! idx) = Some today then Inr s
                else
                  (let h = hs ! idx;
                       hs' = hs[idx := h\<lparr>habit_lastDone := Some today,
                                         habit_streak := Some (or_default (habit_streak h) 0 + 1)\<rparr>];
                       s1 = s\<lparr>store := saveJSON J (store s) ''fd_habits'' hs'\<rparr>
                   in Inr (renderHabits J s1))))"

definition addHabit :: "habit list json_codec \<Rightarrow> app \<Rightarrow> app" where
  "addHabit J s =
     (case habitName (doc s) of
        None \<Rightarrow> s
      | Some inp_value \<Rightarrow>
          (let name = trim inp_value
           in if name = [] then s
              else
                (let habits = loadJSON J (store s) ''fd_habits'' [];
                     habits' =
                       \<lparr>habit_name = name, habit_streak = Some 0, habit_lastDone = None\<rparr> # habits;
                     s1 = s\<lparr>store := saveJSON J (store s) ''fd_habits'' habits'\<rparr>;
                     s2 = s1\<lparr>doc := (doc s1)\<lparr>habitName := Some []\<rparr>\<rparr>
                 in renderHabits J s2)))"

section \<open>The timer\<close>

definition renderTimer :: "app \<Rightarrow> app" where
  "renderTimer s =
     (let m = floor_div (remaining s) 60;
          sec = js_rem (remaining s) 60
      in s\<lparr>doc := (doc s)
           \<lparr>timerLabel :=
              map_option (\<lambda>_. if timerMode s = Focus then ''Focus'' else ''Break'')
                (timerLabel (doc s)),
            timerDisplay := map_option (\<lambda>_. fmt2 m @ '':'' @ fmt2 sec) (timerDisplay (doc s))\<rparr>\<rparr>)"

text \<open>The constants \<^verbatim>\<open>fmin\<close> and \<^verbatim>\<open>bmin\<close> of \<^verbatim>\<open>setTimerFromInputs\<close>, read from the two
  inputs: \<^verbatim>\<open>f ? Math.max(5, Math.min(90, parseInt(f.value || "25", 10))) : 25\<close>.\<close>

definition fmin :: "page \<Rightarrow> jsnum" where
  "fmin p =
     (case focusMin p of
        None \<Rightarrow> Num 25
      | Some f_value \<Rightarrow>
          Math_max (Num 5) (Math_min (Num 90) (parseInt (if f_value = [] then ''25'' else f_value))))"

definition bmin :: "page \<Rightarrow> jsnum" where
  "bmin p =
     (case breakMin p of
        None \<Rightarrow> Num 5
      | Some b_value \<Rightarrow>
          Math_max (Num 1) (Math_min (Num 30) (parseInt (if b_value = [] then ''5'' else b_value))))"

text \<open>\<^verbatim>\<open>(timerMode==="focus" ? fmin : bmin) * 60\<close>: the seconds of the current phase as
  the inputs configure it.\<close>

definition phase_seconds :: "app \<Rightarrow> jsnum" where
  "phase_seconds s =
     js_times (if timerMode s = Focus then fmin (doc s) else bmin (doc s)) (Num 60)"

definition setTimerFromInputs :: "app \<Rightarrow> app" where
  "setTimerFromInputs s = renderTimer (s\<lparr>remaining := phase_seconds s\<rparr>)"

definition step :: "app \<Rightarrow> app" where
  "step s =
     (let s1 = renderTimer (s\<lparr>remaining := Math_max (Num 0) (js_minus (remaining s) (Num 1))\<rparr>)
      in if remaining s1 = Num 0
         then setTimerFromInputs (s1\<lparr>timerMode := (if timerMode s1 = Focus then Break else Focus)\<rparr>)
         else s1)"

text \<open>
  \<^verbatim>\<open>startTimer\<close>, \<^verbatim>\<open>pauseTimer\<close> and \<^verbatim>\<open>resetTimer\<close> (the same text in both versions).
  \<^verbatim>\<open>if(tick)\<close> holds for a handle other than \<open>0\<close>; \<^verbatim>\<open>setInterval\<close> issues the next
  handle and makes it active, \<^verbatim>\<open>clearInterval\<close> removes a handle from the active ones.
\<close>

definition tick_set :: "app \<Rightarrow> bool" where
  "tick_set s = (case tick s of None \<Rightarrow> False | Some h \<Rightarrow> h \<noteq> 0)"

definition setInterval :: "app \<Rightarrow> nat \<times> app" where
  "setInterval s =
     (let h = Suc (issued s) in (h, s\<lparr>intervals := h # intervals s, issued := h\<rparr>))"

definition clearInterval :: "nat option \<Rightarrow> app \<Rightarrow> app" where
  "clearInterval handle s =
     (case handle of None \<Rightarrow> s | Some h \<Rightarrow> s\<lparr>intervals := removeAll h (intervals s)\<rparr>)"

definition startTimer :: "app \<Rightarrow> app" where
  "startTimer s =
     (if tick_set s then s
      else (case setInterval s of (h, s1) \<Rightarrow> s1\<lparr>tick := Some h\<rparr>))"

definition pauseTimer :: "app \<Rightarrow> app" where
  "pauseTimer s =
     (if \<not> tick_set s then s
      else (clearInterval (tick s) s)\<lparr>tick := None\<rparr>)"

definition resetTimer :: "app \<Rightarrow> app" where
  "resetTimer s = setTimerFromInputs (pauseTimer s)"

subsection \<open>The timer of the rewrite\<close>

definition renderTimer_v2 :: "app \<Rightarrow> app" where
  "renderTimer_v2 s =
     (let m = floor_div (remaining s) 60;
          sec = js_rem (remaining s) 60
      in s\<lparr>doc := (doc s)
           \<lparr>timerLabel :=
              map_option (\<lambda>_. if timerMode s = Focus then ''Focus'' else ''Break'')
                (timerLabel (doc s)),
            timerDisplay :=
              map_option (\<lambda>_. fmt2_v2 m @ '':'' @ fmt2_v2 sec) (timerDisplay (doc s))\<rparr>\<rparr>)"

text \<open>\<^verbatim>\<open>var fmin = f ? parseInt(f.value||"25",10) : 25;
  if(!fmin || fmin<5) fmin=25; if(fmin>90) fmin=90;\<close> and likewise \<^verbatim>\<open>bmin\<close>.\<close>

definition fmin_v2 :: "page \<Rightarrow> jsnum" where
  "fmin_v2 p =
     (let x0 = (case focusMin p of
                  None \<Rightarrow> Num 25
                | Some f_value \<Rightarrow> parseInt (if f_value = [] then ''25'' else f_value));
          x1 = (if js_not x0 \<or> js_less x0 (Num 5) then Num 25 else x0);
          x2 = (if js_less (Num 90) x1 then Num 90 else x1)
      in x2)"

definition bmin_v2 :: "page \<Rightarrow> jsnum" where
  "bmin_v2 p =
     (let x0 = (case breakMin p of
                  None \<Rightarrow> Num 5
                | Some b_value \<Rightarrow> parseInt (if b_value = [] then ''5'' else b_value));
          x1 = (if js_not x0 \<or> js_less x0 (Num 1) then Num 5 else x0);
          x2 = (if js_less (Num 30) x1 then Num 30 else x1)
      in x2)"

definition phase_seconds_v2 :: "app \<Rightarrow> jsnum" where
  "phase_seconds_v2 s =
     js_times (if timerMode s = Focus then fmin_v2 (doc s) else bmin_v2 (doc s)) (Num 60)"

definition setTimerFromInputs_v2 :: "app \<Rightarrow> app" where
  "setTimerFromInputs_v2 s = renderTimer_v2 (s\<lparr>remaining := phase_seconds_v2 s\<rparr>)"

definition step_v2 :: "app \<Rightarrow> app" where
  "step_v2 s =
     (let s1 = renderTimer_v2 (s\<lparr>remaining := Math_max (Num 0) (js_minus (remaining s) (Num 1))\<rparr>)
      in if remaining s1 = Num 0
         then setTimerFromInputs_v2
                (s1\<lparr>timerMode := (if timerMode s1 = Focus then Break else Focus)\<rparr>)
         else s1)"

definition resetTimer_v2 :: "app \<Rightarrow> app" where
  "resetTimer_v2 s = setTimerFromInputs_v2 (pauseTimer s)"

section \<open>Page load and the events that drive the timer\<close>

text \<open>The state when the script has been evaluated: the three globals have their
  initial values and no interval timer of the page is active.\<close>

definition script_start :: "page \<Rightarrow> storage \<Rightarrow> date \<Rightarrow> app" where
  "script_start p st d =
     \<lparr>doc = p, store = st, clock = d, timerMode = Focus, remaining = Num (25 * 60),
      tick = None, intervals = [], issued = 0\<rparr>"

text \<open>The \<^verbatim>\<open>DOMContentLoaded\<close> listener of the first script: the six calls before the
  buttons are wired.\<close>

definition DOMContentLoaded ::
  "task list json_codec \<Rightarrow> project list json_codec \<Rightarrow> habit list json_codec \<Rightarrow> app \<Rightarrow> app" where
  "DOMContentLoaded Jt Jp Jh s =
     setTimerFromInputs
       (renderTimer (renderHabits Jh (renderProjects Jp (renderTasks Jt (updateKPIs Jt s)))))"

text \<open>\<^verbatim>\<open>updateKPIs\<close> of the rewrite sums in one \<^verbatim>\<open>for\<close> loop; its listener then renders
  the timer; the list renders it calls are empty stubs.\<close>

definition kpi_loop :: "task list \<Rightarrow> int \<times> int" where
  "kpi_loop tasks =
     foldl (\<lambda>(p, d) t.
              (p + or_default (task_minutes t) 0,
               if task_done t then d + or_default (task_minutes t) 0 else d))
       (0, 0) tasks"

definition updateKPIs_v2 :: "task list json_codec \<Rightarrow> app \<Rightarrow> app" where
  "updateKPIs_v2 J s =
     (let tasks = loadJSON_v2 J (store s) ''fd_tasks'' [];
          (p, d) = kpi_loop tasks
      in s\<lparr>doc := (doc s)
           \<lparr>todayDate := map_option (\<lambda>_. todayISO_v2 (clock s)) (todayDate (doc s)),
            plannedMinutes :=
              map_option (\<lambda>_. js_String (Num p) @ '' min'') (plannedMinutes (doc s)),
            completedMinutes :=
              map_option (\<lambda>_. js_String (Num d) @ '' min'') (completedMinutes (doc s))\<rparr>\<rparr>)"

definition DOMContentLoaded_v2 :: "task list json_codec \<Rightarrow> app \<Rightarrow> app" where
  "DOMContentLoaded_v2 Jt s = setTimerFromInputs_v2 (renderTimer_v2 (updateKPIs_v2 Jt s))"

text \<open>
  One second passes: every active interval timer runs its callback once.

  The events that reach the timer: clicks on the three buttons, a committed edit of one of
  the two duration inputs (the input has its new value when its \<^verbatim>\<open>change\<close> listener
  runs; without the element there is nothing to edit), and the passing of a second.
\<close>

definition second_elapses :: "(app \<Rightarrow> app) \<Rightarrow> app \<Rightarrow> app" where
  "second_elapses callback s = fold (\<lambda>h. callback) (intervals s) s"

datatype event =
    Start_click
  | Pause_click
  | Reset_click
  | FocusMin_change string
  | BreakMin_change string
  | Second_elapsed

fun fire :: "event \<Rightarrow> app \<Rightarrow> app" where
  "fire Start_click s = startTimer s"
| "fire Pause_click s = pauseTimer s"
| "fire Reset_click s = resetTimer s"
| "fire (FocusMin_change v) s =
     (case focusMin (doc s) of
        None \<Rightarrow> s
      | Some _ \<Rightarrow> setTimerFromInputs (s\<lparr>doc := (doc s)\<lparr>focusMin := Some v\<rparr>\<rparr>))"
| "fire (BreakMin_change v) s =
     (case breakMin (doc s) of
        None \<Rightarrow> s
      | Some _ \<Rightarrow> setTimerFromInputs (s\<lparr>doc := (doc s)\<lparr>breakMin := Some v\<rparr>\<rparr>))"
| "fire Second_elapsed s = second_elapses step s"

fun fire_v2 :: "event \<Rightarrow> app \<Rightarrow> app" where
  "fire_v2 Start_click s = startTimer s"
| "fire_v2 Pause_click s = pauseTimer s"
| "fire_v2 Reset_click s = resetTimer_v2 s"
| "fire_v2 (FocusMin_change v) s =
     (case focusMin (doc s) of
        None \<Rightarrow> s
      | Some _ \<Rightarrow> setTimerFromInputs_v2 (s\<lparr>doc := (doc s)\<lparr>focusMin := Some v\<rparr>\<rparr>))"
| "fire_v2 (BreakMin_change v) s =
     (case breakMin (doc s) of
        None \<Rightarrow> s
      | Some _ \<Rightarrow> setTimerFromInputs_v2 (s\<lparr>doc := (doc s)\<lparr>breakMin := Some v\<rparr>\<rparr>))"
| "fire_v2 Second_elapsed s = second_elapses step_v2 s"

definition run :: "(event \<Rightarrow> app \<Rightarrow> app) \<Rightarrow> event list \<Rightarrow> app \<Rightarrow> app" where
  "run f evs s = foldl (\<lambda>s e. f e s) s evs"

section \<open>Properties of states, and sample data\<close>

text \<open>\<open>within r d\<close>: \<open>r\<close> is an integer between \<open>0\<close> and the integer \<open>d\<close>.\<close>

fun within :: "jsnum \<Rightarrow> jsnum \<Rightarrow> bool" where
  "within (Num r) (Num d) = (0 \<le> r \<and> r \<le> d)"
| "within _ _ = False"

text \<open>The active interval timers of the page are exactly the handle in \<^verbatim>\<open>tick\<close>, which
  is one the browser issued.\<close>

definition one_callback :: "app \<Rightarrow> bool" where
  "one_callback s =
     (case tick s of
        None \<Rightarrow> intervals s = []
      | Some h \<Rightarrow> intervals s = [h] \<and> 0 < h \<and> h \<le> issued s)"

text \<open>A page with none of the elements, a browser without \<^verbatim>\<open>localStorage\<close>, a full
  \<^verbatim>\<open>localStorage\<close> that refuses every write, an empty one that accepts every write, and
  a date.\<close>

definition blank_page :: page where
  "blank_page =
     \<lparr>todayDate = None, plannedMinutes = None, completedMinutes = None, taskList = None,
      taskInput = None, timerLabel = None, timerDisplay = None, focusMin = None,
      breakMin = None, projectsWrap = None, projName = None, habitsWrap = None,
      habitName = None\<rparr>"

definition no_storage :: storage where
  "no_storage = \<lparr>avail = Undeclared, entries = (\<lambda>k. None), accepts = (\<lambda>k str. False)\<rparr>"

definition full_storage :: "(string \<Rightarrow> string option) \<Rightarrow> storage" where
  "full_storage m = \<lparr>avail = Available, entries = m, accepts = (\<lambda>k str. False)\<rparr>"

definition empty_storage :: storage where
  "empty_storage = \<lparr>avail = Available, entries = (\<lambda>k. None), accepts = (\<lambda>k str. True)\<rparr>"

definition new_year :: date where
  "new_year = \<lparr>getFullYear = 2024, getMonth = 0, getDate = 1\<rparr>"

text \<open>A codec that reads one string, \<^verbatim>\<open>"[...]"\<close>, as the serialisation of one
  collection, and writes every other collection as \<^verbatim>\<open>"[?]"\<close>.\<close>

definition codec_of :: "'a \<Rightarrow> 'a json_codec" where
  "codec_of v =
     \<lparr>JSON_parse = (\<lambda>str. if str = ''[...]'' then Some v else None),
      JSON_stringify = (\<lambda>x. Some (if x = v then ''[...]'' else ''[?]''))\<rparr>"

text \<open>A codec for three collections, serialised as \<^verbatim>\<open>"[a]"\<close>, \<^verbatim>\<open>"[b]"\<close> and \<^verbatim>\<open>"[c]"\<close>.\<close>

definition codec_of3 :: "'a \<Rightarrow> 'a \<Rightarrow> 'a \<Rightarrow> 'a json_codec" where
  "codec_of3 a b c =
     \<lparr>JSON_parse =
        (\<lambda>str. if str = ''[a]'' then Some a else if str = ''[b]'' then Some b
               else if str = ''[c]'' then Some c else None),
      JSON_stringify =
        (\<lambda>x. if x = a then Some ''[a]'' else if x = b then Some ''[b]''
             else if x = c then Some ''[c]'' else None)\<rparr>"

text \<open>Four tasks, one project and one habit.\<close>

definition four_tasks :: "task list" where
  "four_tasks =
     [\<lparr>task_text = ''A'', task_done = False, task_minutes = Some 25\<rparr>,
      \<lparr>task_text = ''B'', task_done = True, task_minutes = Some 10\<rparr>,
      \<lparr>task_text = ''C'', task_done = False, task_minutes = Some 25\<rparr>,
      \<lparr>task_text = ''D'', task_done = True, task_minutes = Some 5\<rparr>]"

definition one_project :: "project list" where
  "one_project = [\<lparr>proj_name = ''Thesis'', proj_milestones = Some []\<rparr>]"

definition one_habit :: "habit list" where
  "one_habit = [\<lparr>habit_name = ''Run'', habit_streak = Some 0, habit_lastDone = None\<rparr>]"

text \<open>The habit \<^verbatim>\<open>Run\<close> with a given streak and last day, and a page whose habits view
  was rendered on the day \<open>d\<close> from a store that holds the collection \<^verbatim>\<open>"[a]"\<close> and accepts
  writes.\<close>

definition run_habit :: "int \<Rightarrow> string option \<Rightarrow> habit list" where
  "run_habit n d = [\<lparr>habit_name = ''Run'', habit_streak = Some n, habit_lastDone = d\<rparr>]"

definition habits_demo :: "string \<Rightarrow> habit list \<Rightarrow> app" where
  "habits_demo d hs =
     script_start (blank_page\<lparr>habitsWrap := Some (habits_view_of d hs)\<rparr>)
       (empty_storage\<lparr>entries := [''fd_habits'' \<mapsto> ''[a]'']\<rparr>) new_year"

text \<open>A loaded page with all the elements, rendered on 2024-01-01 from a full store that
  holds the three sample collections.\<close>

definition demo_entries :: "string \<Rightarrow> string option" where
  "demo_entries =
     [''fd_tasks'' \<mapsto> ''[...]'', ''fd_projects'' \<mapsto> ''[...]'', ''fd_habits'' \<mapsto> ''[...]'']"

definition demo_page :: page where
  "demo_page =
     blank_page
       \<lparr>plannedMinutes := Some [], completedMinutes := Some [],
        taskList := Some (task_view_of four_tasks), taskInput := Some ''E'',
        projectsWrap :=
          Some \<lparr>pw_cards = [\<lparr>pc_h3 = ''Thesis'', pc_inp = ''draft''\<rparr>], pw_projects = one_project\<rparr>,
        projName := Some ''Garden'',
        habitsWrap := Some (habits_view_of ''2024-01-01'' one_habit),
        habitName := Some ''Read''\<rparr>"

definition demo :: app where
  "demo = script_start demo_page (full_storage demo_entries) new_year"

section \<open>The store adapter degrades to the fallback and to a dropped write\<close>

lemmas adapter_defs = loadJSON_def loadJSON_try_def loadJSON_v2_def loadJSON_v2_try_def
  saveJSON_def saveJSON_try_def saveJSON_v2_def saveJSON_v2_try_def getItem_def setItem_def

text \<open>
  Claim C2. For every key and fallback, \<^verbatim>\<open>loadJSON\<close> returns the deserialised stored
  value when the store is available, holds a non-empty string under the key and the string
  parses; it returns the fallback when the store is unavailable, the key is absent, or the
  string is empty or corrupt, and whenever its \<^verbatim>\<open>try\<close> block throws. \<^verbatim>\<open>saveJSON\<close> stores the
  serialised value when the write goes through and leaves the store as it was on every
  failure, whatever its \<^verbatim>\<open>try\<close> block throws. Both functions are total: no exception of
  the \<^verbatim>\<open>try\<close> block (the \<open>Inl\<close> results) reaches the caller. Both versions of the adapter.
\<close>

theorem loadJSON_saveJSON_contract:
  fixes J :: "'a json_codec"
  shows "(avail st = Available \<and> entries st k = Some raw \<and> raw \<noteq> [] \<and> JSON_parse J raw = Some v
            \<longrightarrow> loadJSON J st k fb = v \<and> loadJSON_v2 J st k fb = v)
       \<and> (avail st \<noteq> Available \<or> entries st k = None \<or> entries st k = Some []
            \<or> (entries st k = Some raw \<and> JSON_parse J raw = None)
            \<longrightarrow> loadJSON J st k fb = fb \<and> loadJSON_v2 J st k fb = fb)
       \<and> (\<forall>e. loadJSON_try J st k fb = Inl e \<longrightarrow> loadJSON J st k fb = fb)
       \<and> (\<forall>e. loadJSON_v2_try J st k fb = Inl e \<longrightarrow> loadJSON_v2 J st k fb = fb)
       \<and> (avail st = Available \<and> JSON_stringify J x = Some str \<and> accepts st k str
            \<longrightarrow> saveJSON J st k x = st\<lparr>entries := (entries st)(k \<mapsto> str)\<rparr>
              \<and> saveJSON_v2 J st k x = st\<lparr>entries := (entries st)(k \<mapsto> str)\<rparr>)
       \<and> (avail st \<noteq> Available \<or> JSON_stringify J x = None
            \<or> (JSON_stringify J x = Some str \<and> \<not> accepts st k str)
            \<longrightarrow> saveJSON J st k x = st \<and> saveJSON_v2 J st k x = st)
       \<and> (\<forall>e. saveJSON_try J st k x = Inl e \<longrightarrow> saveJSON J st k x = st)
       \<and> (\<forall>e. saveJSON_v2_try J st k x = Inl e \<longrightarrow> saveJSON_v2 J st k x = st)"
  by (cases "avail st"; cases "entries st k"; cases "JSON_stringify J x")
     (auto simp: adapter_defs split: option.splits)

theorem loadJSON_saveJSON_contract_witness:
  "loadJSON (codec_of four_tasks) (full_storage [''fd_tasks'' \<mapsto> ''[...]'']) ''fd_tasks'' [] = four_tasks
   \<and> loadJSON_v2 (codec_of four_tasks) (full_storage [''fd_tasks'' \<mapsto> ''[...]'']) ''fd_tasks'' [] = four_tasks
   \<and> loadJSON (codec_of four_tasks) (full_storage [''fd_tasks'' \<mapsto> ''{broken'']) ''fd_tasks'' [] = []
   \<and> loadJSON (codec_of four_tasks) no_storage ''fd_tasks'' [] = []
   \<and> loadJSON_v2 (codec_of four_tasks) no_storage ''fd_tasks'' [] = []
   \<and> saveJSON (codec_of four_tasks) empty_storage ''fd_tasks'' four_tasks
       = empty_storage\<lparr>entries := [''fd_tasks'' \<mapsto> ''[...]'']\<rparr>
   \<and> saveJSON (codec_of four_tasks) (full_storage Map.empty) ''fd_tasks'' four_tasks
       = full_storage Map.empty
   \<and> saveJSON_v2 (codec_of four_tasks) no_storage ''fd_tasks'' four_tasks = no_storage"
  using
    loadJSON_saveJSON_contract [where J = "codec_of four_tasks"
      and st = "full_storage [''fd_tasks'' \<mapsto> ''[...]'']" and k = "''fd_tasks''" and raw = "''[...]''"
      and v = four_tasks and fb = "[]" and x = four_tasks and str = "''[...]''"]
    loadJSON_saveJSON_contract [where J = "codec_of four_tasks"
      and st = "full_storage [''fd_tasks'' \<mapsto> ''{broken'']" and k = "''fd_tasks''" and raw = "''{broken''"
      and v = four_tasks and fb = "[]" and x = four_tasks and str = "''[...]''"]
    loadJSON_saveJSON_contract [where J = "codec_of four_tasks"
      and st = no_storage and k = "''fd_tasks''" and raw = "''[...]''"
      and v = four_tasks and fb = "[]" and x = four_tasks and str = "''[...]''"]
    loadJSON_saveJSON_contract [where J = "codec_of four_tasks"
      and st = empty_storage and k = "''fd_tasks''" and raw = "''[...]''"
      and v = four_tasks and fb = "[]" and x = four_tasks and str = "''[...]''"]
    loadJSON_saveJSON_contract [where J = "codec_of four_tasks"
      and st = "full_storage Map.empty" and k = "''fd_tasks''" and raw = "''[...]''"
      and v = four_tasks and fb = "[]" and x = four_tasks and str = "''[...]''"]
  by (simp add: codec_of_def full_storage_def no_storage_def empty_storage_def)

section \<open>What the timer functions change\<close>

lemma renderTimer_frame [simp]:
  "timerMode (renderTimer s) = timerMode s" "remaining (renderTimer s) = remaining s"
  "tick (renderTimer s) = tick s" "intervals (renderTimer s) = intervals s"
  "issued (renderTimer s) = issued s" "store (renderTimer s) = store s" "clock (renderTimer s) = clock s"
  "focusMin (doc (renderTimer s)) = focusMin (doc s)" "breakMin (doc (renderTimer s)) = breakMin (doc s)"
  by (simp_all add: renderTimer_def Let_def)

lemma renderTimer_v2_frame [simp]:
  "timerMode (renderTimer_v2 s) = timerMode s" "remaining (renderTimer_v2 s) = remaining s"
  "tick (renderTimer_v2 s) = tick s" "intervals (renderTimer_v2 s) = intervals s"
  "issued (renderTimer_v2 s) = issued s" "store (renderTimer_v2 s) = store s" "clock (renderTimer_v2 s) = clock s"
  "focusMin (doc (renderTimer_v2 s)) = focusMin (doc s)" "breakMin (doc (renderTimer_v2 s)) = breakMin (doc s)"
  by (simp_all add: renderTimer_v2_def Let_def)

lemma phase_seconds_cong:
  "timerMode s = timerMode t \<Longrightarrow> focusMin (doc s) = focusMin (doc t) \<Longrightarrow> breakMin (doc s) = breakMin (doc t)
   \<Longrightarrow> phase_seconds s = phase_seconds t"
  by (simp add: phase_seconds_def fmin_def bmin_def)

lemma phase_seconds_v2_cong:
  "timerMode s = timerMode t \<Longrightarrow> focusMin (doc s) = focusMin (doc t) \<Longrightarrow> breakMin (doc s) = breakMin (doc t)
   \<Longrightarrow> phase_seconds_v2 s = phase_seconds_v2 t"
  by (simp add: phase_seconds_v2_def fmin_v2_def bmin_v2_def)

lemma setTimerFromInputs_frame [simp]:
  "timerMode (setTimerFromInputs s) = timerMode s"
  "remaining (setTimerFromInputs s) = phase_seconds s"
  "tick (setTimerFromInputs s) = tick s" "intervals (setTimerFromInputs s) = intervals s"
  "issued (setTimerFromInputs s) = issued s"
  "focusMin (doc (setTimerFromInputs s)) = focusMin (doc s)" "breakMin (doc (setTimerFromInputs s)) = breakMin (doc s)"
  by (simp_all add: setTimerFromInputs_def)

lemma setTimerFromInputs_v2_frame [simp]:
  "timerMode (setTimerFromInputs_v2 s) = timerMode s"
  "remaining (setTimerFromInputs_v2 s) = phase_seconds_v2 s"
  "tick (setTimerFromInputs_v2 s) = tick s" "intervals (setTimerFromInputs_v2 s) = intervals s"
  "issued (setTimerFromInputs_v2 s) = issued s"
  "focusMin (doc (setTimerFromInputs_v2 s)) = focusMin (doc s)" "breakMin (doc (setTimerFromInputs_v2 s)) = breakMin (doc s)"
  by (simp_all add: setTimerFromInputs_v2_def)

lemma step_frame [simp]:
  "tick (step s) = tick s" "intervals (step s) = intervals s" "issued (step s) = issued s"
  "focusMin (doc (step s)) = focusMin (doc s)" "breakMin (doc (step s)) = breakMin (doc s)"
  by (simp_all add: step_def Let_def)

lemma step_v2_frame [simp]:
  "tick (step_v2 s) = tick s" "intervals (step_v2 s) = intervals s" "issued (step_v2 s) = issued s"
  "focusMin (doc (step_v2 s)) = focusMin (doc s)" "breakMin (doc (step_v2 s)) = breakMin (doc s)"
  by (simp_all add: step_v2_def Let_def)

lemma step_at_one:
  assumes "remaining s = Num 1"
  shows "timerMode (step s) = (if timerMode s = Focus then Break else Focus)"
    and "remaining (step s) = js_times (if timerMode s = Focus then bmin (doc s) else fmin (doc s)) (Num 60)"
  using assms by (auto simp add: step_def Let_def phase_seconds_def fmin_def bmin_def)

lemma step_v2_at_one:
  assumes "remaining s = Num 1"
  shows "timerMode (step_v2 s) = (if timerMode s = Focus then Break else Focus)"
    and "remaining (step_v2 s) = js_times (if timerMode s = Focus then bmin_v2 (doc s) else fmin_v2 (doc s)) (Num 60)"
  using assms by (auto simp add: step_v2_def Let_def phase_seconds_v2_def fmin_v2_def bmin_v2_def)

lemma list_render_timer_frame [simp]:
  "timerMode (updateKPIs Jt s) = timerMode s" "remaining (updateKPIs Jt s) = remaining s"
  "focusMin (doc (updateKPIs Jt s)) = focusMin (doc s)" "breakMin (doc (updateKPIs Jt s)) = breakMin (doc s)"
  "timerMode (renderTasks Jt s) = timerMode s" "remaining (renderTasks Jt s) = remaining s"
  "focusMin (doc (renderTasks Jt s)) = focusMin (doc s)" "breakMin (doc (renderTasks Jt s)) = breakMin (doc s)"
  "timerMode (renderProjects Jp s) = timerMode s" "remaining (renderProjects Jp s) = remaining s"
  "focusMin (doc (renderProjects Jp s)) = focusMin (doc s)" "breakMin (doc (renderProjects Jp s)) = breakMin (doc s)"
  "timerMode (renderHabits Jh s) = timerMode s" "remaining (renderHabits Jh s) = remaining s"
  "focusMin (doc (renderHabits Jh s)) = focusMin (doc s)" "breakMin (doc (renderHabits Jh s)) = breakMin (doc s)"
  "timerMode (updateKPIs_v2 Jt s) = timerMode s" "remaining (updateKPIs_v2 Jt s) = remaining s"
  "focusMin (doc (updateKPIs_v2 Jt s)) = focusMin (doc s)" "breakMin (doc (updateKPIs_v2 Jt s)) = breakMin (doc s)"
  by (simp_all add: updateKPIs_def renderTasks_def renderProjects_def renderHabits_def updateKPIs_v2_def
      Let_def split: option.splits prod.splits)

lemma start_pause_frame [simp]:
  "timerMode (startTimer s) = timerMode s" "remaining (startTimer s) = remaining s" "doc (startTimer s) = doc s"
  "timerMode (pauseTimer s) = timerMode s" "remaining (pauseTimer s) = remaining s" "doc (pauseTimer s) = doc s"
  by (simp_all add: startTimer_def pauseTimer_def setInterval_def clearInterval_def Let_def split: option.splits)

section \<open>Configuring the durations\<close>

lemma parseInt_Nil [simp]: "parseInt [] = NaN"
  by (simp add: parseInt_def)

lemmas parseInt_eval = parseInt_def white_space_def decimal_digit_def digits_value_def

lemma fmin_numeric:
  assumes "focusMin p = Some f" and "parseInt f = Num n"
  shows "fmin p = Num (max 5 (min 90 n))" and "fmin_v2 p = Num (if n < 5 then 25 else min 90 n)"
proof -
  from assms have "f \<noteq> []" by auto
  with assms show "fmin p = Num (max 5 (min 90 n))" by (simp add: fmin_def)
  from assms \<open>f \<noteq> []\<close> show "fmin_v2 p = Num (if n < 5 then 25 else min 90 n)"
    by (auto simp add: fmin_v2_def Let_def)
qed

lemma bmin_numeric:
  assumes "breakMin p = Some b" and "parseInt b = Num n"
  shows "bmin p = Num (max 1 (min 30 n))" and "bmin_v2 p = Num (if n < 1 then 5 else min 30 n)"
proof -
  from assms have "b \<noteq> []" by auto
  with assms show "bmin p = Num (max 1 (min 30 n))" by (simp add: bmin_def)
  from assms \<open>b \<noteq> []\<close> show "bmin_v2 p = Num (if n < 1 then 5 else min 30 n)"
    by (auto simp add: bmin_v2_def Let_def)
qed

lemma parseInt_25 [simp]: "parseInt ''25'' = Num 25"
  by (simp add: parseInt_eval)

lemma parseInt_5 [simp]: "parseInt ''5'' = Num 5"
  by (simp add: parseInt_eval)

lemma fmin_v2_range: "\<exists>n. fmin_v2 p = Num n \<and> 5 \<le> n \<and> n \<le> 90"
  by (cases "focusMin p"; cases "parseInt (if the (focusMin p) = [] then ''25'' else the (focusMin p))")
     (auto simp add: fmin_v2_def Let_def)

lemma bmin_v2_range: "\<exists>n. bmin_v2 p = Num n \<and> 1 \<le> n \<and> n \<le> 30"
  by (cases "breakMin p"; cases "parseInt (if the (breakMin p) = [] then ''5'' else the (breakMin p))")
     (auto simp add: bmin_v2_def Let_def)

text \<open>A missing or empty input takes the default in both versions. Text that is no
  number takes the default in the rewrite and yields \<open>NaN\<close> minutes in the first script.\<close>

lemma fmin_defaults:
  "focusMin p = None \<or> focusMin p = Some [] \<Longrightarrow> fmin p = Num 25 \<and> fmin_v2 p = Num 25"
  by (auto simp add: fmin_def fmin_v2_def)

lemma bmin_defaults:
  "breakMin p = None \<or> breakMin p = Some [] \<Longrightarrow> bmin p = Num 5 \<and> bmin_v2 p = Num 5"
  by (auto simp add: bmin_def bmin_v2_def)

lemma v2_defaults_NaN:
  "focusMin p = Some f \<Longrightarrow> parseInt f = NaN \<Longrightarrow> fmin_v2 p = Num 25"
  "breakMin p = Some b \<Longrightarrow> parseInt b = NaN \<Longrightarrow> bmin_v2 p = Num 5"
  by (auto simp add: fmin_v2_def bmin_v2_def)

lemma v1_NaN:
  "focusMin p = Some f \<Longrightarrow> f \<noteq> [] \<Longrightarrow> parseInt f = NaN \<Longrightarrow> fmin p = NaN"
  "breakMin p = Some b \<Longrightarrow> b \<noteq> [] \<Longrightarrow> parseInt b = NaN \<Longrightarrow> bmin p = NaN"
  by (auto simp add: fmin_def bmin_def)

text \<open>
  Claim C4, as amended. When the focus input holds text that \<^verbatim>\<open>parseInt\<close> reads as the
  integer \<open>n\<close>, the first script takes \<open>max 5 (min 90 n)\<close> focus minutes, and likewise
  \<open>max 1 (min 30 m)\<close> break minutes: each value outside its range goes to the nearest
  bound, so the inputs 3 and 999 give 5 and 90 focus minutes. The rewrite clamps only
  from above: it takes \<open>min 90 n\<close>, but 25 when \<open>n\<close> is below 5, and \<open>min 30 m\<close>, but 5
  when \<open>m\<close> is below 1. In both versions \<^verbatim>\<open>setTimerFromInputs\<close> sets \<^verbatim>\<open>remaining\<close> to the
  minutes of the current phase times 60 and leaves the phase, \<^verbatim>\<open>tick\<close> and the interval
  timers alone.
\<close>

theorem configure_clamps:
  "(focusMin p = Some f \<and> parseInt f = Num n \<longrightarrow>
      fmin p = Num (max 5 (min 90 n)) \<and> fmin_v2 p = Num (if n < 5 then 25 else min 90 n))
   \<and> (breakMin p = Some b \<and> parseInt b = Num m \<longrightarrow>
      bmin p = Num (max 1 (min 30 m)) \<and> bmin_v2 p = Num (if m < 1 then 5 else min 30 m))
   \<and> fmin (blank_page\<lparr>focusMin := Some ''3'', breakMin := Some ''5''\<rparr>) = Num 5
   \<and> fmin (blank_page\<lparr>focusMin := Some ''999'', breakMin := Some ''5''\<rparr>) = Num 90
   \<and> fmin_v2 (blank_page\<lparr>focusMin := Some ''999'', breakMin := Some ''5''\<rparr>) = Num 90
   \<and> remaining (setTimerFromInputs s) = js_times (if timerMode s = Focus then fmin (doc s) else bmin (doc s)) (Num 60)
   \<and> remaining (setTimerFromInputs_v2 s) = js_times (if timerMode s = Focus then fmin_v2 (doc s) else bmin_v2 (doc s)) (Num 60)
   \<and> timerMode (setTimerFromInputs s) = timerMode s \<and> tick (setTimerFromInputs s) = tick s
   \<and> intervals (setTimerFromInputs s) = intervals s
   \<and> timerMode (setTimerFromInputs_v2 s) = timerMode s \<and> tick (setTimerFromInputs_v2 s) = tick s
   \<and> intervals (setTimerFromInputs_v2 s) = intervals s"
proof -
  have "fmin (blank_page\<lparr>focusMin := Some ''3'', breakMin := Some ''5''\<rparr>) = Num 5"
    by (simp add: fmin_def parseInt_eval)
  moreover have "fmin (blank_page\<lparr>focusMin := Some ''999'', breakMin := Some ''5''\<rparr>) = Num 90"
    by (simp add: fmin_def parseInt_eval)
  moreover have "fmin_v2 (blank_page\<lparr>focusMin := Some ''999'', breakMin := Some ''5''\<rparr>) = Num 90"
    by (simp add: fmin_v2_def parseInt_eval)
  ultimately show ?thesis
    by (simp add: fmin_numeric bmin_numeric phase_seconds_def phase_seconds_v2_def)
qed

theorem configure_clamps_witness:
  "fmin (blank_page\<lparr>focusMin := Some ''3''\<rparr>) = Num 5
   \<and> fmin_v2 (blank_page\<lparr>focusMin := Some ''3''\<rparr>) = Num 25
   \<and> bmin (blank_page\<lparr>breakMin := Some ''0''\<rparr>) = Num 1
   \<and> bmin_v2 (blank_page\<lparr>breakMin := Some ''0''\<rparr>) = Num 5"
proof -
  have f: "focusMin (blank_page\<lparr>focusMin := Some ''3''\<rparr>) = Some ''3'' \<and> parseInt ''3'' = Num 3"
    by (simp add: parseInt_eval)
  have b: "breakMin (blank_page\<lparr>breakMin := Some ''0''\<rparr>) = Some ''0'' \<and> parseInt ''0'' = Num 0"
    by (simp add: parseInt_eval)
  show ?thesis
    using configure_clamps [of "blank_page\<lparr>focusMin := Some ''3''\<rparr>" "''3''" 3 _ _ ]
      configure_clamps [of "blank_page\<lparr>breakMin := Some ''0''\<rparr>" _ _ "''0''" 0] f b
    by simp
qed

text \<open>The claim as stated fails on the rewrite: the focus input 3 (with break input 5)
  gives 25 focus minutes, 1500 seconds, not 5.\<close>

theorem configure_low_counterexample:
  "fmin_v2 (blank_page\<lparr>focusMin := Some ''3'', breakMin := Some ''5''\<rparr>) = Num 25
   \<and> fmin_v2 (blank_page\<lparr>focusMin := Some ''3'', breakMin := Some ''5''\<rparr>) \<noteq> Num 5
   \<and> remaining (setTimerFromInputs_v2
        (script_start (blank_page\<lparr>focusMin := Some ''3'', breakMin := Some ''5''\<rparr>) no_storage new_year))
       = Num 1500"
  by (simp add: fmin_v2_def parseInt_eval phase_seconds_v2_def script_start_def)

text \<open>
  Claim C5, evaluated on the first script at the focus inputs \<^verbatim>\<open>abc\<close> and \<^verbatim>\<open>.5\<close>:
  \<^verbatim>\<open>parseInt\<close> yields \<open>NaN\<close>, which \<open>Math.min\<close> and \<open>Math.max\<close> pass on, so the focus minutes
  and \<^verbatim>\<open>remaining\<close> are \<open>NaN\<close> and the display reads \<^verbatim>\<open>NaN:NaN\<close>; no default of 25 is taken.
  The rewrite takes 25 at the same input.
\<close>

theorem configure_non_numeric:
  "fmin (blank_page\<lparr>focusMin := Some ''abc''\<rparr>) = NaN
   \<and> fmin (blank_page\<lparr>focusMin := Some ''.5''\<rparr>) = NaN
   \<and> remaining (setTimerFromInputs (script_start (blank_page\<lparr>focusMin := Some ''abc''\<rparr>) no_storage new_year)) = NaN
   \<and> timerDisplay (doc (setTimerFromInputs
        (script_start (blank_page\<lparr>focusMin := Some ''abc'', timerDisplay := Some []\<rparr>) no_storage new_year)))
       = Some ''NaN:NaN''
   \<and> fmin_v2 (blank_page\<lparr>focusMin := Some ''abc''\<rparr>) = Num 25"
  by (simp add: fmin_def fmin_v2_def parseInt_eval phase_seconds_def script_start_def
      setTimerFromInputs_def renderTimer_def fmt2_def padStart2_def)

section \<open>A tick at the phase boundary\<close>

text \<open>
  Claim C3. From \<^verbatim>\<open>remaining = 1\<close> with the timer running (\<^verbatim>\<open>tick\<close> holds a handle), one
  \<^verbatim>\<open>step\<close> in phase Focus yields phase Break with \<^verbatim>\<open>remaining\<close> the break minutes times 60,
  where the break minutes are read from the break input at that moment: for an input that
  \<^verbatim>\<open>parseInt\<close> reads as the integer \<open>m\<close> they are \<open>max 1 (min 30 m)\<close> in the first script and
  \<open>min 30 m\<close>, or 5 when \<open>m\<close> is below 1, in the rewrite, so \<open>m\<close> itself in both versions when
  \<open>m\<close> is between 1 and 30; they are 5 when the input is missing or empty. In phase Break
  the step yields Focus with the focus minutes times 60, read likewise from the focus input
  (range 5 to 90, default 25). \<^verbatim>\<open>tick\<close> and the active interval timers are untouched: the
  timer keeps running.
\<close>

theorem tick_at_phase_boundary:
  assumes "remaining s = Num 1" and "tick s = Some h" and "h \<noteq> 0"
  shows "(timerMode s = Focus \<and> breakMin (doc s) = Some b \<and> parseInt b = Num m \<longrightarrow>
            timerMode (step s) = Break \<and> remaining (step s) = Num (60 * max 1 (min 30 m))
          \<and> timerMode (step_v2 s) = Break
          \<and> remaining (step_v2 s) = Num (60 * (if m < 1 then 5 else min 30 m)))
       \<and> (timerMode s = Focus \<and> breakMin (doc s) = Some b \<and> parseInt b = Num m \<and> 1 \<le> m \<and> m \<le> 30 \<longrightarrow>
            remaining (step s) = Num (m * 60) \<and> remaining (step_v2 s) = Num (m * 60))
       \<and> (timerMode s = Focus \<and> (breakMin (doc s) = None \<or> breakMin (doc s) = Some []) \<longrightarrow>
            timerMode (step s) = Break \<and> remaining (step s) = Num (5 * 60)
          \<and> timerMode (step_v2 s) = Break \<and> remaining (step_v2 s) = Num (5 * 60))
       \<and> (timerMode s = Break \<and> focusMin (doc s) = Some f \<and> parseInt f = Num n \<longrightarrow>
            timerMode (step s) = Focus \<and> remaining (step s) = Num (60 * max 5 (min 90 n))
          \<and> timerMode (step_v2 s) = Focus
          \<and> remaining (step_v2 s) = Num (60 * (if n < 5 then 25 else min 90 n)))
       \<and> (timerMode s = Break \<and> focusMin (doc s) = Some f \<and> parseInt f = Num n \<and> 5 \<le> n \<and> n \<le> 90 \<longrightarrow>
            remaining (step s) = Num (n * 60) \<and> remaining (step_v2 s) = Num (n * 60))
       \<and> (timerMode s = Break \<and> (focusMin (doc s) = None \<or> focusMin (doc s) = Some []) \<longrightarrow>
            timerMode (step s) = Focus \<and> remaining (step s) = Num (25 * 60)
          \<and> timerMode (step_v2 s) = Focus \<and> remaining (step_v2 s) = Num (25 * 60))
       \<and> tick (step s) = Some h \<and> tick_set (step s) \<and> intervals (step s) = intervals s
       \<and> tick (step_v2 s) = Some h \<and> tick_set (step_v2 s) \<and> intervals (step_v2 s) = intervals s"
proof -
  have run: "tick (step s) = Some h \<and> tick_set (step s) \<and> intervals (step s) = intervals s
       \<and> tick (step_v2 s) = Some h \<and> tick_set (step_v2 s) \<and> intervals (step_v2 s) = intervals s"
    using assms(2,3) by (simp add: tick_set_def)
  have fb: "timerMode s = Focus \<and> breakMin (doc s) = Some b \<and> parseInt b = Num m \<longrightarrow>
            timerMode (step s) = Break \<and> remaining (step s) = Num (60 * max 1 (min 30 m))
          \<and> timerMode (step_v2 s) = Break
          \<and> remaining (step_v2 s) = Num (60 * (if m < 1 then 5 else min 30 m))"
    using assms(1) by (auto simp add: step_at_one step_v2_at_one bmin_numeric)
  have fb_in: "timerMode s = Focus \<and> breakMin (doc s) = Some b \<and> parseInt b = Num m \<and> 1 \<le> m \<and> m \<le> 30 \<longrightarrow>
            remaining (step s) = Num (m * 60) \<and> remaining (step_v2 s) = Num (m * 60)"
    using assms(1) by (auto simp add: step_at_one step_v2_at_one bmin_numeric)
  have fb_def: "timerMode s = Focus \<and> (breakMin (doc s) = None \<or> breakMin (doc s) = Some []) \<longrightarrow>
            timerMode (step s) = Break \<and> remaining (step s) = Num (5 * 60)
          \<and> timerMode (step_v2 s) = Break \<and> remaining (step_v2 s) = Num (5 * 60)"
    using assms(1) bmin_defaults [of "doc s"] by (auto simp add: step_at_one step_v2_at_one)
  have bf: "timerMode s = Break \<and> focusMin (doc s) = Some f \<and> parseInt f = Num n \<longrightarrow>
            timerMode (step s) = Focus \<and> remaining (step s) = Num (60 * max 5 (min 90 n))
          \<and> timerMode (step_v2 s) = Focus
          \<and> remaining (step_v2 s) = Num (60 * (if n < 5 then 25 else min 90 n))"
    using assms(1) by (auto simp add: step_at_one step_v2_at_one fmin_numeric)
  have bf_in: "timerMode s = Break \<and> focusMin (doc s) = Some f \<and> parseInt f = Num n \<and> 5 \<le> n \<and> n \<le> 90 \<longrightarrow>
            remaining (step s) = Num (n * 60) \<and> remaining (step_v2 s) = Num (n * 60)"
    using assms(1) by (auto simp add: step_at_one step_v2_at_one fmin_numeric)
  have bf_def: "timerMode s = Break \<and> (focusMin (doc s) = None \<or> focusMin (doc s) = Some []) \<longrightarrow>
            timerMode (step s) = Focus \<and> remaining (step s) = Num (25 * 60)
          \<and> timerMode (step_v2 s) = Focus \<and> remaining (step_v2 s) = Num (25 * 60)"
    using assms(1) fmin_defaults [of "doc s"] by (auto simp add: step_at_one step_v2_at_one)
  from run fb fb_in fb_def bf bf_in bf_def show ?thesis by blast
qed

theorem tick_at_phase_boundary_witness:
  "timerMode (step ((script_start (blank_page\<lparr>focusMin := Some ''50'', breakMin := Some ''10''\<rparr>) no_storage new_year)
      \<lparr>remaining := Num 1, tick := Some 1, intervals := [1], issued := 1\<rparr>)) = Break
   \<and> remaining (step ((script_start (blank_page\<lparr>focusMin := Some ''50'', breakMin := Some ''10''\<rparr>) no_storage new_year)
      \<lparr>remaining := Num 1, tick := Some 1, intervals := [1], issued := 1\<rparr>)) = Num 600
   \<and> remaining (step_v2 ((script_start (blank_page\<lparr>focusMin := Some ''50'', breakMin := Some ''10''\<rparr>) no_storage new_year)
      \<lparr>remaining := Num 1, tick := Some 1, intervals := [1], issued := 1\<rparr>)) = Num 600
   \<and> tick (step ((script_start (blank_page\<lparr>focusMin := Some ''50'', breakMin := Some ''10''\<rparr>) no_storage new_year)
      \<lparr>remaining := Num 1, tick := Some 1, intervals := [1], issued := 1\<rparr>)) = Some 1
   \<and> timerMode (step_v2 ((script_start (blank_page\<lparr>focusMin := Some ''50'', breakMin := Some ''10''\<rparr>) no_storage new_year)
      \<lparr>timerMode := Break, remaining := Num 1, tick := Some 1, intervals := [1], issued := 1\<rparr>)) = Focus
   \<and> remaining (step_v2 ((script_start (blank_page\<lparr>focusMin := Some ''50'', breakMin := Some ''10''\<rparr>) no_storage new_year)
      \<lparr>timerMode := Break, remaining := Num 1, tick := Some 1, intervals := [1], issued := 1\<rparr>)) = Num 3000
   \<and> remaining (step ((script_start (blank_page\<lparr>focusMin := Some ''50'', breakMin := Some ''10''\<rparr>) no_storage new_year)
      \<lparr>timerMode := Break, remaining := Num 1, tick := Some 1, intervals := [1], issued := 1\<rparr>)) = Num 3000
   \<and> remaining (step ((script_start blank_page no_storage new_year)
      \<lparr>remaining := Num 1, tick := Some 1, intervals := [1], issued := 1\<rparr>)) = Num 300"
proof -
  have p: "parseInt ''10'' = Num 10" "parseInt ''50'' = Num 50"
    by (simp_all add: parseInt_eval)
  show ?thesis
    using
      tick_at_phase_boundary [where s = "(script_start (blank_page\<lparr>focusMin := Some ''50'', breakMin := Some ''10''\<rparr>) no_storage new_year)
        \<lparr>remaining := Num 1, tick := Some 1, intervals := [1], issued := 1\<rparr>" and h = 1
        and b = "''10''" and m = 10 and f = "''50''" and n = 50]
      tick_at_phase_boundary [where s = "(script_start (blank_page\<lparr>focusMin := Some ''50'', breakMin := Some ''10''\<rparr>) no_storage new_year)
        \<lparr>timerMode := Break, remaining := Num 1, tick := Some 1, intervals := [1], issued := 1\<rparr>" and h = 1
        and b = "''10''" and m = 10 and f = "''50''" and n = 50]
      tick_at_phase_boundary [where s = "(script_start blank_page no_storage new_year)
        \<lparr>remaining := Num 1, tick := Some 1, intervals := [1], issued := 1\<rparr>" and h = 1
        and b = "''10''" and m = 10 and f = "''50''" and n = 50]
    by (simp add: script_start_def blank_page_def p)
qed

section \<open>At most one periodic callback\<close>

lemma list_render_frame [simp]:
  "tick (updateKPIs Jt s) = tick s" "intervals (updateKPIs Jt s) = intervals s" "issued (updateKPIs Jt s) = issued s"
  "tick (renderTasks Jt s) = tick s" "intervals (renderTasks Jt s) = intervals s" "issued (renderTasks Jt s) = issued s"
  "tick (renderProjects Jp s) = tick s" "intervals (renderProjects Jp s) = intervals s" "issued (renderProjects Jp s) = issued s"
  "tick (renderHabits Jh s) = tick s" "intervals (renderHabits Jh s) = intervals s" "issued (renderHabits Jh s) = issued s"
  "tick (updateKPIs_v2 Jt s) = tick s" "intervals (updateKPIs_v2 Jt s) = intervals s" "issued (updateKPIs_v2 Jt s) = issued s"
  by (simp_all add: updateKPIs_def renderTasks_def renderProjects_def renderHabits_def updateKPIs_v2_def
      Let_def split: option.splits prod.splits)

lemma one_callback_start: "one_callback (script_start p st d)"
  by (simp add: one_callback_def script_start_def)

lemma one_callback_cong:
  "tick t = tick s \<Longrightarrow> intervals t = intervals s \<Longrightarrow> issued t = issued s \<Longrightarrow> one_callback t = one_callback s"
  by (simp add: one_callback_def split: option.splits)

lemma one_callback_timer [simp]:
  "one_callback (step s) = one_callback s"
  "one_callback (step_v2 s) = one_callback s"
  "one_callback (setTimerFromInputs s) = one_callback s"
  "one_callback (setTimerFromInputs_v2 s) = one_callback s"
  "one_callback (s\<lparr>doc := p\<rparr>) = one_callback s"
  by (rule one_callback_cong; simp)+

lemma one_callback_loaded:
  "one_callback (DOMContentLoaded Jt Jp Jh (script_start p st d))"
  "one_callback (DOMContentLoaded_v2 Jt (script_start p st d))"
  by (simp_all add: DOMContentLoaded_def DOMContentLoaded_v2_def one_callback_def script_start_def)

lemma one_callback_tick_set: "one_callback s \<Longrightarrow> tick_set s = (tick s \<noteq> None)"
  by (auto simp add: one_callback_def tick_set_def split: option.splits)

lemma one_callback_startTimer: "one_callback s \<Longrightarrow> one_callback (startTimer s)"
  by (auto simp add: one_callback_def startTimer_def setInterval_def tick_set_def Let_def split: option.splits)

lemma one_callback_pauseTimer: "one_callback s \<Longrightarrow> one_callback (pauseTimer s)"
  by (auto simp add: one_callback_def pauseTimer_def clearInterval_def tick_set_def split: option.splits)

lemma second_elapses_one:
  "one_callback s \<Longrightarrow> second_elapses f s = (if tick_set s then f s else s)"
  by (auto simp add: one_callback_def second_elapses_def tick_set_def split: option.splits)


lemma one_callback_fire: "one_callback s \<Longrightarrow> one_callback (fire e s)"
  by (cases e)
     (simp_all add: one_callback_startTimer one_callback_pauseTimer resetTimer_def
       second_elapses_one split: option.splits)

lemma one_callback_fire_v2: "one_callback s \<Longrightarrow> one_callback (fire_v2 e s)"
  by (cases e)
     (simp_all add: one_callback_startTimer one_callback_pauseTimer resetTimer_v2_def
       second_elapses_one split: option.splits)

lemma run_snoc: "run f (evs @ [e]) s = f e (run f evs s)"
  by (simp add: run_def)

lemma one_callback_run:
  "one_callback s \<Longrightarrow> one_callback (run fire evs s)"
proof (induction evs rule: rev_induct)
  case Nil
  then show ?case by (simp add: run_def)
next
  case (snoc e evs)
  then show ?case by (simp add: run_snoc one_callback_fire)
qed

lemma one_callback_run_v2:
  "one_callback s \<Longrightarrow> one_callback (run fire_v2 evs s)"
proof (induction evs rule: rev_induct)
  case Nil
  then show ?case by (simp add: run_def)
next
  case (snoc e evs)
  then show ?case by (simp add: run_snoc one_callback_fire_v2)
qed

lemma one_callback_length: "one_callback s \<Longrightarrow> length (intervals s) \<le> 1"
  by (simp add: one_callback_def split: option.splits)

lemma startTimer_running: "tick_set s \<Longrightarrow> startTimer s = s"
  by (simp add: startTimer_def)

lemma tick_set_startTimer: "tick_set (startTimer s)"
  by (simp add: startTimer_def setInterval_def tick_set_def Let_def)

lemma startTimer_twice: "startTimer (startTimer s) = startTimer s"
  by (simp add: startTimer_running tick_set_startTimer)

lemma pauseTimer_paused: "\<not> tick_set s \<Longrightarrow> pauseTimer s = s"
  by (simp add: pauseTimer_def)

lemma not_tick_set_pauseTimer: "\<not> tick_set (pauseTimer s)"
  by (simp add: pauseTimer_def tick_set_def)

lemma pauseTimer_twice: "pauseTimer (pauseTimer s) = pauseTimer s"
  by (simp add: pauseTimer_paused not_tick_set_pauseTimer)

lemma intervals_pauseTimer: "one_callback s \<Longrightarrow> intervals (pauseTimer s) = []"
  using one_callback_pauseTimer [of s] not_tick_set_pauseTimer [of s]
  by (simp add: one_callback_def tick_set_def split: option.splits)

lemma intervals_startTimer: "one_callback s \<Longrightarrow> length (intervals (startTimer s)) = 1"
  using one_callback_startTimer [of s] tick_set_startTimer [of s]
  by (simp add: one_callback_def tick_set_def split: option.splits)

lemma one_decrement:
  "one_callback s \<Longrightarrow> second_elapses f (startTimer (startTimer s)) = f (startTimer s)"
  by (simp add: startTimer_twice second_elapses_one one_callback_startTimer tick_set_startTimer)

text \<open>
  Claim C8. In every state the timer events reach after page load, in both versions, at
  most one interval timer is active, and it is the one whose handle \<^verbatim>\<open>tick\<close> holds.
  \<^verbatim>\<open>startTimer\<close> while running changes nothing, so after two calls one interval timer is
  active and a second that passes runs \<^verbatim>\<open>step\<close> once. \<^verbatim>\<open>pauseTimer\<close> leaves no interval timer
  active, and changes nothing when the timer is already paused.
\<close>

theorem at_most_one_callback:
  assumes "s = run fire evs (DOMContentLoaded Jt Jp Jh (script_start p st d))
         \<or> s = run fire_v2 evs (DOMContentLoaded_v2 Jt (script_start p st d))"
  shows "length (intervals s) \<le> 1 \<and> one_callback s
       \<and> (tick_set s \<longrightarrow> startTimer s = s)
       \<and> startTimer (startTimer s) = startTimer s
       \<and> length (intervals (startTimer (startTimer s))) = 1
       \<and> second_elapses step (startTimer (startTimer s)) = step (startTimer s)
       \<and> second_elapses step_v2 (startTimer (startTimer s)) = step_v2 (startTimer s)
       \<and> intervals (pauseTimer s) = [] \<and> \<not> tick_set (pauseTimer s)
       \<and> pauseTimer (pauseTimer s) = pauseTimer s
       \<and> (\<not> tick_set s \<longrightarrow> pauseTimer s = s)"
proof -
  from assms have inv: "one_callback s"
    by (auto simp add: one_callback_run one_callback_run_v2 one_callback_loaded)
  have "length (intervals (startTimer (startTimer s))) = 1"
    using inv by (simp add: startTimer_twice intervals_startTimer)
  with inv one_callback_length [OF inv] one_decrement [OF inv, of step]
    one_decrement [OF inv, of step_v2] intervals_pauseTimer [OF inv]
  show ?thesis
    by (simp add: startTimer_running startTimer_twice not_tick_set_pauseTimer pauseTimer_twice
        pauseTimer_paused)
qed

theorem at_most_one_callback_witness:
  "startTimer (run fire [Start_click, Start_click]
      (DOMContentLoaded (codec_of []) (codec_of []) (codec_of []) (script_start blank_page no_storage new_year)))
   = run fire [Start_click, Start_click]
      (DOMContentLoaded (codec_of []) (codec_of []) (codec_of []) (script_start blank_page no_storage new_year))
   \<and> length (intervals (run fire [Start_click, Start_click]
      (DOMContentLoaded (codec_of []) (codec_of []) (codec_of []) (script_start blank_page no_storage new_year)))) \<le> 1
   \<and> pauseTimer (run fire_v2 [Pause_click] (DOMContentLoaded_v2 (codec_of []) (script_start blank_page no_storage new_year)))
     = run fire_v2 [Pause_click] (DOMContentLoaded_v2 (codec_of []) (script_start blank_page no_storage new_year))"
proof -
  let ?s0 = "DOMContentLoaded (codec_of []) (codec_of []) (codec_of []) (script_start blank_page no_storage new_year)"
  let ?t0 = "DOMContentLoaded_v2 (codec_of []) (script_start blank_page no_storage new_year)"
  have running: "tick_set (run fire [Start_click, Start_click] ?s0)"
    by (simp add: run_def tick_set_startTimer)
  have paused: "\<not> tick_set (run fire_v2 [Pause_click] ?t0)"
    by (simp add: run_def not_tick_set_pauseTimer)
  show ?thesis
    using at_most_one_callback [of "run fire [Start_click, Start_click] ?s0" "[Start_click, Start_click]"
        "codec_of []" "codec_of []" "codec_of []" blank_page no_storage new_year]
      at_most_one_callback [of "run fire_v2 [Pause_click] ?t0" "[Pause_click]"
        "codec_of []" "codec_of []" "codec_of []" blank_page no_storage new_year]
      running paused
    by simp
qed

section \<open>The range of the remaining seconds\<close>

text \<open>
  Claim C7, evaluated on the first script: after page load with the focus input at 25,
  committing the text \<^verbatim>\<open>abc\<close> in the focus input makes \<^verbatim>\<open>remaining\<close> \<open>NaN\<close>, which is no
  integer between 0 and the seconds of the phase; with the timer started it is still \<open>NaN\<close>
  two seconds later and the phase is still Focus.
\<close>

theorem timer_NaN_reachable:
  "remaining (run fire [FocusMin_change ''abc'']
      (DOMContentLoaded (codec_of []) (codec_of []) (codec_of [])
         (script_start (blank_page\<lparr>focusMin := Some ''25''\<rparr>) no_storage new_year))) = NaN
   \<and> remaining (run fire [FocusMin_change ''abc'', Start_click, Second_elapsed, Second_elapsed]
      (DOMContentLoaded (codec_of []) (codec_of []) (codec_of [])
         (script_start (blank_page\<lparr>focusMin := Some ''25''\<rparr>) no_storage new_year))) = NaN
   \<and> timerMode (run fire [FocusMin_change ''abc'', Start_click, Second_elapsed, Second_elapsed]
      (DOMContentLoaded (codec_of []) (codec_of []) (codec_of [])
         (script_start (blank_page\<lparr>focusMin := Some ''25''\<rparr>) no_storage new_year))) = Focus
   \<and> \<not> within NaN (phase_seconds (run fire [FocusMin_change ''abc'']
      (DOMContentLoaded (codec_of []) (codec_of []) (codec_of [])
         (script_start (blank_page\<lparr>focusMin := Some ''25''\<rparr>) no_storage new_year))))"
proof -
  let ?s0 = "DOMContentLoaded (codec_of []) (codec_of []) (codec_of [])
         (script_start (blank_page\<lparr>focusMin := Some ''25''\<rparr>) no_storage new_year)"
  have f: "focusMin (doc ?s0) = Some ''25''" and m: "timerMode ?s0 = Focus"
    by (simp_all add: DOMContentLoaded_def script_start_def blank_page_def)
  let ?s1 = "fire (FocusMin_change ''abc'') ?s0"
  have r1: "remaining ?s1 = NaN" and m1: "timerMode ?s1 = Focus"
    using f m by (simp_all add: phase_seconds_def fmin_def parseInt_eval)
  have oc: "one_callback ?s1"
    by (rule one_callback_fire) (rule one_callback_loaded)
  let ?s2 = "startTimer ?s1"
  have r2: "remaining ?s2 = NaN" "timerMode ?s2 = Focus" "one_callback ?s2" "tick_set ?s2"
    using r1 m1 oc by (simp_all add: one_callback_startTimer tick_set_startTimer)
  have stepNaN: "\<And>s. remaining s = NaN \<Longrightarrow> remaining (step s) = NaN \<and> timerMode (step s) = timerMode s"
    by (simp add: step_def Let_def)
  let ?s3 = "second_elapses step ?s2"
  have s3: "?s3 = step ?s2" using r2 by (simp add: second_elapses_one)
  have r3: "remaining ?s3 = NaN" "timerMode ?s3 = Focus" "one_callback ?s3" "tick_set ?s3"
    using r2 stepNaN [of ?s2] unfolding s3 by (simp_all add: tick_set_def)
  let ?s4 = "second_elapses step ?s3"
  have s4: "?s4 = step ?s3" using r3 by (simp add: second_elapses_one)
  have r4: "remaining ?s4 = NaN" "timerMode ?s4 = Focus"
    using r3 stepNaN [of ?s3] unfolding s4 by simp_all
  show ?thesis using r1 r4 by (simp add: run_def)
qed

text \<open>In the rewrite the range invariant holds: in every state the timer events reach
  after page load, \<^verbatim>\<open>remaining\<close> is an integer between 0 and the seconds of the current
  phase as the inputs configure it.\<close>

lemma phase_seconds_v2_pos: "\<exists>d. phase_seconds_v2 s = Num d \<and> 60 \<le> d"
proof -
  obtain f where f: "fmin_v2 (doc s) = Num f" "5 \<le> f" using fmin_v2_range by blast
  obtain b where b: "bmin_v2 (doc s) = Num b" "1 \<le> b" using bmin_v2_range by blast
  show ?thesis using f b by (auto simp add: phase_seconds_v2_def)
qed

lemma within_refl_v2: "within (phase_seconds_v2 s) (phase_seconds_v2 s)"
  using phase_seconds_v2_pos [of s] by auto

lemma in_range_setTimer_v2:
  "within (remaining (setTimerFromInputs_v2 s)) (phase_seconds_v2 (setTimerFromInputs_v2 s))"
proof -
  have "phase_seconds_v2 (setTimerFromInputs_v2 s) = phase_seconds_v2 s"
    by (rule phase_seconds_v2_cong) simp_all
  then show ?thesis by (simp add: within_refl_v2)
qed

lemma in_range_step_v2:
  assumes "within (remaining s) (phase_seconds_v2 s)"
  shows "within (remaining (step_v2 s)) (phase_seconds_v2 (step_v2 s))"
proof -
  obtain d where d: "phase_seconds_v2 s = Num d" using phase_seconds_v2_pos by blast
  with assms obtain r where r: "remaining s = Num r" "0 \<le> r" "r \<le> d"
    by (cases "remaining s") auto
  let ?s1 = "renderTimer_v2 (s\<lparr>remaining := Math_max (Num 0) (js_minus (remaining s) (Num 1))\<rparr>)"
  have r1: "remaining ?s1 = Num (max 0 (r - 1))" using r by simp
  show ?thesis
  proof (cases "max 0 (r - 1) = 0")
    case True
    then have "step_v2 s = setTimerFromInputs_v2 (?s1\<lparr>timerMode := (if timerMode ?s1 = Focus then Break else Focus)\<rparr>)"
      using r1 by (simp add: step_v2_def Let_def)
    then show ?thesis by (simp only: in_range_setTimer_v2)
  next
    case False
    then have eq: "step_v2 s = ?s1" using r1 by (simp add: step_v2_def Let_def)
    have "phase_seconds_v2 ?s1 = phase_seconds_v2 s"
      by (rule phase_seconds_v2_cong) simp_all
    then show ?thesis unfolding eq using r1 r d False by simp
  qed
qed

lemma in_range_fire_v2:
  assumes "within (remaining s) (phase_seconds_v2 s)" and "one_callback s"
  shows "within (remaining (fire_v2 e s)) (phase_seconds_v2 (fire_v2 e s))"
proof (cases e)
  case Start_click
  have "phase_seconds_v2 (startTimer s) = phase_seconds_v2 s"
    by (rule phase_seconds_v2_cong) simp_all
  then show ?thesis using assms Start_click by simp
next
  case Pause_click
  have "phase_seconds_v2 (pauseTimer s) = phase_seconds_v2 s"
    by (rule phase_seconds_v2_cong) simp_all
  then show ?thesis using assms Pause_click by simp
next
  case Reset_click
  then show ?thesis by (simp only: fire_v2.simps resetTimer_v2_def in_range_setTimer_v2)
next
  case (FocusMin_change v)
  then show ?thesis using assms(1)
    by (cases "focusMin (doc s)") (simp_all only: fire_v2.simps option.case in_range_setTimer_v2)
next
  case (BreakMin_change v)
  then show ?thesis using assms(1)
    by (cases "breakMin (doc s)") (simp_all only: fire_v2.simps option.case in_range_setTimer_v2)
next
  case Second_elapsed
  then show ?thesis using assms by (simp add: second_elapses_one in_range_step_v2)
qed

lemma timer_in_range_v2:
  "within (remaining (run fire_v2 evs (DOMContentLoaded_v2 Jt (script_start p st d))))
     (phase_seconds_v2 (run fire_v2 evs (DOMContentLoaded_v2 Jt (script_start p st d))))"
proof (induction evs rule: rev_induct)
  case Nil
  show ?case by (simp only: run_def foldl.simps DOMContentLoaded_v2_def in_range_setTimer_v2)
next
  case (snoc e evs)
  then show ?case
    by (simp only: run_snoc) (rule in_range_fire_v2, assumption, rule one_callback_run_v2, rule one_callback_loaded)
qed

section \<open>What the list renders change, and the sample page\<close>

lemma trim_empty_iff: "trim v = [] \<longleftrightarrow> (\<forall>c\<in>set v. white_space c)"
proof
  assume "trim v = []"
  then have a: "\<forall>c\<in>set (dropWhile white_space v). white_space c"
    by (simp add: trim_def dropWhile_eq_Nil_conv)
  have "dropWhile white_space v = []"
  proof (rule ccontr)
    assume ne: "dropWhile white_space v \<noteq> []"
    then have "\<not> white_space (hd (dropWhile white_space v))" by (rule hd_dropWhile)
    moreover have "hd (dropWhile white_space v) \<in> set (dropWhile white_space v)" using ne by simp
    ultimately show False using a by blast
  qed
  then show "\<forall>c\<in>set v. white_space c" by (simp add: dropWhile_eq_Nil_conv)
next
  assume "\<forall>c\<in>set v. white_space c"
  then have "dropWhile white_space v = []" by (simp add: dropWhile_eq_Nil_conv)
  then show "trim v = []" by (simp only: trim_def rev.simps dropWhile.simps)
qed

lemma updateKPIs_frame [simp]:
  "store (updateKPIs J s) = store s" "clock (updateKPIs J s) = clock s"
  "taskList (doc (updateKPIs J s)) = taskList (doc s)"
  "taskInput (doc (updateKPIs J s)) = taskInput (doc s)"
  by (simp_all add: updateKPIs_def Let_def)

lemma renderTasks_frame [simp]:
  "store (renderTasks J s) = store s" "clock (renderTasks J s) = clock s"
  "taskList (doc (renderTasks J s)) =
     map_option (\<lambda>_. task_view_of (loadJSON J (store s) ''fd_tasks'' [])) (taskList (doc s))"
  "taskInput (doc (renderTasks J s)) = taskInput (doc s)"
  "plannedMinutes (doc (renderTasks J s)) = plannedMinutes (doc s)"
  "completedMinutes (doc (renderTasks J s)) = completedMinutes (doc s)"
  by (simp_all add: renderTasks_def Let_def split: option.splits)

lemma renderProjects_frame [simp]:
  "store (renderProjects J s) = store s" "clock (renderProjects J s) = clock s"
  "projectsWrap (doc (renderProjects J s)) =
     map_option (\<lambda>_. projects_view_of (loadJSON J (store s) ''fd_projects'' [])) (projectsWrap (doc s))"
  "projName (doc (renderProjects J s)) = projName (doc s)"
  by (simp_all add: renderProjects_def Let_def split: option.splits)

lemma renderHabits_frame [simp]:
  "store (renderHabits J s) = store s" "clock (renderHabits J s) = clock s"
  "habitsWrap (doc (renderHabits J s)) =
     map_option (\<lambda>_. habits_view_of (todayISO (clock s)) (loadJSON J (store s) ''fd_habits'' []))
       (habitsWrap (doc s))"
  "habitName (doc (renderHabits J s)) = habitName (doc s)"
  by (simp_all add: renderHabits_def Let_def split: option.splits)

lemma demo_fields:
  "store demo = full_storage demo_entries" "clock demo = new_year"
  "taskInput (doc demo) = Some ''E''" "taskList (doc demo) = Some (task_view_of four_tasks)"
  "projName (doc demo) = Some ''Garden''"
  "projectsWrap (doc demo) =
     Some \<lparr>pw_cards = [\<lparr>pc_h3 = ''Thesis'', pc_inp = ''draft''\<rparr>], pw_projects = one_project\<rparr>"
  "habitName (doc demo) = Some ''Read''"
  "habitsWrap (doc demo) = Some (habits_view_of ''2024-01-01'' one_habit)"
  "plannedMinutes (doc demo) = Some []" "completedMinutes (doc demo) = Some []"
  by (simp_all add: demo_def demo_page_def script_start_def blank_page_def)

lemma demo_loads:
  "loadJSON (codec_of four_tasks) (full_storage demo_entries) ''fd_tasks'' [] = four_tasks"
  "loadJSON (codec_of one_project) (full_storage demo_entries) ''fd_projects'' [] = one_project"
  "loadJSON (codec_of one_habit) (full_storage demo_entries) ''fd_habits'' [] = one_habit"
  by (simp_all add: adapter_defs codec_of_def full_storage_def demo_entries_def)

lemma full_storage_drops:
  "saveJSON_try (codec_of v) (full_storage m) k x = Inl QuotaExceededError"
  by (simp add: saveJSON_try_def setItem_def codec_of_def full_storage_def)

lemma todayISO_new_year: "todayISO new_year = ''2024-01-01''"
  by code_simp

lemma trim_samples:
  "trim ''E'' = ''E''" "trim ''Garden'' = ''Garden''" "trim ''Read'' = ''Read''" "trim ''draft'' = ''draft''"
  by (simp_all add: trim_def white_space_def)

lemma sample_sizes:
  "length (ul_items (task_view_of four_tasks)) = 3" "length (ul_tasks (task_view_of four_tasks)) = 4"
  "length four_tasks = 4" "length one_project = 1" "length one_habit = 1"
  "length (hw_cards (habits_view_of d one_habit)) = 1" "hw_today (habits_view_of d hs) = d"
  "habit_lastDone (one_habit ! 0) = None"
  by (simp_all add: task_view_of_def habits_view_of_def four_tasks_def one_project_def one_habit_def)

section \<open>Adding blank text\<close>

text \<open>
  Claim C10. When the text in the input consists of white space only (the empty text
  included), so that it is empty after \<^verbatim>\<open>trim\<close>, each of \<^verbatim>\<open>addTask\<close>, \<^verbatim>\<open>addProject\<close> and
  \<^verbatim>\<open>addHabit\<close> returns before it loads anything: the whole state (store, page, input,
  timer) is what it was.
\<close>

theorem blank_add_is_noop:
  assumes "\<forall>c\<in>set v. white_space c"
  shows "(taskInput (doc s) = Some v \<longrightarrow> addTask Jt s = s)
       \<and> (projName (doc s) = Some v \<longrightarrow> addProject Jp s = s)
       \<and> (habitName (doc s) = Some v \<longrightarrow> addHabit Jh s = s)
       \<and> trim v = []"
  using assms trim_empty_iff [of v]
  by (simp add: addTask_def addProject_def addHabit_def)

theorem blank_add_is_noop_witness:
  "addTask (codec_of four_tasks)
      ((script_start (blank_page\<lparr>taskInput := Some '' ''\<rparr>) empty_storage new_year))
    = script_start (blank_page\<lparr>taskInput := Some '' ''\<rparr>) empty_storage new_year
   \<and> addProject (codec_of one_project)
      ((script_start (blank_page\<lparr>projName := Some '' ''\<rparr>) empty_storage new_year))
    = script_start (blank_page\<lparr>projName := Some '' ''\<rparr>) empty_storage new_year
   \<and> addHabit (codec_of one_habit)
      ((script_start (blank_page\<lparr>habitName := Some '' ''\<rparr>) empty_storage new_year))
    = script_start (blank_page\<lparr>habitName := Some '' ''\<rparr>) empty_storage new_year"
proof -
  have w: "\<forall>c\<in>set '' ''. white_space c" by (simp add: white_space_def)
  show ?thesis
    using blank_add_is_noop [OF w, of "script_start (blank_page\<lparr>taskInput := Some '' ''\<rparr>) empty_storage new_year"
        "codec_of four_tasks"]
      blank_add_is_noop [OF w, of "script_start (blank_page\<lparr>projName := Some '' ''\<rparr>) empty_storage new_year"
        _ "codec_of one_project"]
      blank_add_is_noop [OF w, of "script_start (blank_page\<lparr>habitName := Some '' ''\<rparr>) empty_storage new_year"
        _ _ "codec_of one_habit"]
    by (simp add: script_start_def blank_page_def)
qed

section \<open>Three tasks are shown, all are counted\<close>

lemma foldl_plus_acc:
  "foldl (\<lambda>a t. a + f t) (a0 :: int) xs = a0 + foldl (\<lambda>a t. a + f t) 0 xs"
proof (induction xs arbitrary: a0)
  case Nil
  show ?case by simp
next
  case (Cons x xs)
  show ?case using Cons [of "a0 + f x"] Cons [of "f x"] by simp
qed

lemma planned_append: "planned (xs @ ys) = planned xs + planned ys"
  using foldl_plus_acc [of "\<lambda>t. or_default (task_minutes t) 0" "planned xs" ys]
  by (simp add: planned_def)

lemma completed_append: "completed (xs @ ys) = completed xs + completed ys"
  using foldl_plus_acc [of "\<lambda>t. or_default (task_minutes t) 0" "completed xs" "filter task_done ys"]
  by (simp add: completed_def)

lemma planned_split: "planned tasks = planned (take 3 tasks) + planned (drop 3 tasks)"
  using planned_append [of "take 3 tasks" "drop 3 tasks"] by simp

lemma completed_split: "completed tasks = completed (take 3 tasks) + completed (drop 3 tasks)"
  using completed_append [of "take 3 tasks" "drop 3 tasks"] by simp

lemma updateKPIs_texts:
  "plannedMinutes (doc (updateKPIs J s)) =
     map_option (\<lambda>_. js_String (Num (planned (loadJSON J (store s) ''fd_tasks'' []))) @ '' min'')
       (plannedMinutes (doc s))"
  "completedMinutes (doc (updateKPIs J s)) =
     map_option (\<lambda>_. js_String (Num (completed (loadJSON J (store s) ''fd_tasks'' []))) @ '' min'')
       (completedMinutes (doc s))"
  by (simp_all add: updateKPIs_def Let_def)

lemma checkbox_change_no_item:
  assumes "taskList (doc s) = Some view" and "length (ul_items view) \<le> idx"
  shows "checkbox_change J idx s = Inr s"
  using assms by (simp add: checkbox_change_def)

lemma checkbox_change_item:
  assumes "taskList (doc s) = Some view" and "idx < length (ul_items view)"
    and "idx < length (ul_tasks view)"
  shows "checkbox_change J idx s =
     Inr (renderTasks J (updateKPIs J (s\<lparr>store := saveJSON J (store s) ''fd_tasks''
        ((ul_tasks view)[idx := (ul_tasks view ! idx)\<lparr>task_done := \<not> li_checked (ul_items view ! idx)\<rparr>])\<rparr>)))"
  using assms by (simp add: checkbox_change_def Let_def)

text \<open>
  Claim C9. With more than three tasks stored and the list element in the page,
  \<^verbatim>\<open>renderTasks\<close> shows the items of the first three tasks only and leaves the store as it
  is; \<^verbatim>\<open>updateKPIs\<close> writes the planned and completed minutes of all the tasks, those from
  position three on included; from the rendered list no checkbox exists for a position
  from three on, so a change there is no event at all, and the change of a checkbox at a
  position below three saves a collection of the same length that differs from the stored
  one at that position only, so the tasks from position three on stay as they are.
\<close>

theorem only_three_tasks_shown:
  assumes "loadJSON J (store s) ''fd_tasks'' [] = tasks" and "3 < length tasks"
    and "taskList (doc s) = Some old_view"
  shows "taskList (doc (renderTasks J s)) = Some (task_view_of tasks)
       \<and> ul_items (task_view_of tasks) = map task_item (take 3 tasks)
       \<and> length (ul_items (task_view_of tasks)) = 3
       \<and> store (renderTasks J s) = store s
       \<and> plannedMinutes (doc (updateKPIs J s)) =
           map_option (\<lambda>_. js_String (Num (planned tasks)) @ '' min'') (plannedMinutes (doc s))
       \<and> completedMinutes (doc (updateKPIs J s)) =
           map_option (\<lambda>_. js_String (Num (completed tasks)) @ '' min'') (completedMinutes (doc s))
       \<and> planned tasks = planned (take 3 tasks) + planned (drop 3 tasks)
       \<and> completed tasks = completed (take 3 tasks) + completed (drop 3 tasks)
       \<and> (\<forall>idx. 3 \<le> idx \<longrightarrow> checkbox_change J idx (renderTasks J s) = Inr (renderTasks J s))
       \<and> (\<forall>idx. idx < 3 \<longrightarrow>
            (\<exists>tasks'. checkbox_change J idx (renderTasks J s) =
                Inr (renderTasks J (updateKPIs J
                  ((renderTasks J s)\<lparr>store := saveJSON J (store s) ''fd_tasks'' tasks'\<rparr>)))
              \<and> length tasks' = length tasks \<and> drop 3 tasks' = drop 3 tasks
              \<and> (\<forall>i. i \<noteq> idx \<longrightarrow> tasks' ! i = tasks ! i)))"
proof -
  let ?r = "renderTasks J s"
  have view: "taskList (doc ?r) = Some (task_view_of tasks)"
    using assms by simp
  have items: "ul_items (task_view_of tasks) = map task_item (take 3 tasks)"
    and captured: "ul_tasks (task_view_of tasks) = tasks"
    by (simp_all add: task_view_of_def)
  have len: "length (ul_items (task_view_of tasks)) = 3"
    using assms(2) by (simp add: items)
  have none: "\<forall>idx. 3 \<le> idx \<longrightarrow> checkbox_change J idx ?r = Inr ?r"
    using checkbox_change_no_item [OF view] len by simp
  have some: "\<forall>idx. idx < 3 \<longrightarrow>
            (\<exists>tasks'. checkbox_change J idx ?r =
                Inr (renderTasks J (updateKPIs J (?r\<lparr>store := saveJSON J (store s) ''fd_tasks'' tasks'\<rparr>)))
              \<and> length tasks' = length tasks \<and> drop 3 tasks' = drop 3 tasks
              \<and> (\<forall>i. i \<noteq> idx \<longrightarrow> tasks' ! i = tasks ! i))"
  proof (intro allI impI)
    fix idx :: nat
    assume idx: "idx < 3"
    let ?t = "tasks[idx := (tasks ! idx)\<lparr>task_done := \<not> li_checked (ul_items (task_view_of tasks) ! idx)\<rparr>]"
    have "checkbox_change J idx ?r =
        Inr (renderTasks J (updateKPIs J (?r\<lparr>store := saveJSON J (store ?r) ''fd_tasks'' ?t\<rparr>)))"
      using checkbox_change_item [OF view, of idx J] idx len assms(2) by (simp add: captured)
    moreover have "length ?t = length tasks" by simp
    moreover have "drop 3 ?t = drop 3 tasks" using idx by (simp add: drop_update_cancel)
    moreover have "\<forall>i. i \<noteq> idx \<longrightarrow> ?t ! i = tasks ! i" by simp
    ultimately show "\<exists>tasks'. checkbox_change J idx ?r =
                Inr (renderTasks J (updateKPIs J (?r\<lparr>store := saveJSON J (store s) ''fd_tasks'' tasks'\<rparr>)))
              \<and> length tasks' = length tasks \<and> drop 3 tasks' = drop 3 tasks
              \<and> (\<forall>i. i \<noteq> idx \<longrightarrow> tasks' ! i = tasks ! i)"
      by (intro exI [of _ ?t]) simp
  qed
  show ?thesis
    using assms(1) view items len none some planned_split [of tasks] completed_split [of tasks]
    by (simp add: updateKPIs_texts)
qed

theorem only_three_tasks_shown_witness:
  "taskList (doc (renderTasks (codec_of four_tasks) demo)) = Some (task_view_of four_tasks)
   \<and> length (ul_items (task_view_of four_tasks)) = 3
   \<and> plannedMinutes (doc (updateKPIs (codec_of four_tasks) demo)) = Some ''65 min''
   \<and> completedMinutes (doc (updateKPIs (codec_of four_tasks) demo)) = Some ''15 min''
   \<and> checkbox_change (codec_of four_tasks) 3 (renderTasks (codec_of four_tasks) demo)
       = Inr (renderTasks (codec_of four_tasks) demo)"
proof -
  have p: "planned four_tasks = 65" "completed four_tasks = 15"
    by (simp_all add: planned_def completed_def four_tasks_def)
  have d: "nat_digits 65 = ''65''" "nat_digits 15 = ''15''"
    by code_simp+
  show ?thesis
    using only_three_tasks_shown [of "codec_of four_tasks" demo four_tasks "task_view_of four_tasks"]
    by (simp add: demo_fields demo_loads sample_sizes p d)
qed

section \<open>A dropped write shows as no change\<close>

lemma saveJSON_dropped: "saveJSON_try J st k v = Inl e \<Longrightarrow> saveJSON J st k v = st"
  by (simp add: saveJSON_def)

lemma app_store_same [simp]: "s\<lparr>store := store s\<rparr> = s"
  by simp

lemma addTask_dropped:
  assumes "taskInput (doc s) = Some v" and "trim v \<noteq> []"
    and "saveJSON_try J (store s) ''fd_tasks''
           (\<lparr>task_text = trim v, task_done = False, task_minutes = Some 25\<rparr>
              # loadJSON J (store s) ''fd_tasks'' []) = Inl e"
  shows "addTask J s = renderTasks J (updateKPIs J (s\<lparr>doc := (doc s)\<lparr>taskInput := Some []\<rparr>\<rparr>))"
  using assms by (simp add: addTask_def Let_def saveJSON_dropped)

lemma checkbox_change_dropped:
  assumes "taskList (doc s) = Some view" and "idx < length (ul_items view)"
    and "idx < length (ul_tasks view)"
    and "saveJSON_try J (store s) ''fd_tasks''
           ((ul_tasks view)[idx := (ul_tasks view ! idx)\<lparr>task_done := \<not> li_checked (ul_items view ! idx)\<rparr>])
         = Inl e"
  shows "checkbox_change J idx s = Inr (renderTasks J (updateKPIs J s))"
  using assms by (simp add: checkbox_change_item saveJSON_dropped)

lemma clearDone_dropped:
  assumes "saveJSON_try J (store s) ''fd_tasks''
             (filter (\<lambda>t. \<not> task_done t) (loadJSON J (store s) ''fd_tasks'' [])) = Inl e"
  shows "clearDone_click J s = renderTasks J (updateKPIs J s)"
  using assms by (simp add: clearDone_click_def Let_def saveJSON_dropped)

lemma wipeAll_dropped:
  assumes "saveJSON_try J (store s) ''fd_tasks'' [] = Inl e"
  shows "wipeAll_click J s = renderTasks J (updateKPIs J s)"
  using assms by (simp add: wipeAll_click_def Let_def saveJSON_dropped)

lemma addProject_dropped:
  assumes "projName (doc s) = Some v" and "trim v \<noteq> []"
    and "saveJSON_try J (store s) ''fd_projects''
           (\<lparr>proj_name = trim v, proj_milestones = Some []\<rparr>
              # loadJSON J (store s) ''fd_projects'' []) = Inl e"
  shows "addProject J s = renderProjects J (s\<lparr>doc := (doc s)\<lparr>projName := Some []\<rparr>\<rparr>)"
  using assms by (simp add: addProject_def Let_def saveJSON_dropped)

lemma milestone_click_dropped:
  assumes "projectsWrap (doc s) = Some view" and "idx < length (pw_cards view)"
    and "idx < length (pw_projects view)" and "trim (pc_inp (pw_cards view ! idx)) \<noteq> []"
    and "saveJSON_try J (store s) ''fd_projects''
           ((pw_projects view)[idx := (pw_projects view ! idx)\<lparr>proj_milestones :=
              Some (\<lparr>ms_text = trim (pc_inp (pw_cards view ! idx)), ms_done = False\<rparr>
                # (case proj_milestones (pw_projects view ! idx) of None \<Rightarrow> [] | Some m \<Rightarrow> m))\<rparr>])
         = Inl e"
  shows "milestone_click J idx s = Inr (renderProjects J s)"
  using assms by (simp add: milestone_click_def Let_def saveJSON_dropped)

lemma addHabit_dropped:
  assumes "habitName (doc s) = Some v" and "trim v \<noteq> []"
    and "saveJSON_try J (store s) ''fd_habits''
           (\<lparr>habit_name = trim v, habit_streak = Some 0, habit_lastDone = None\<rparr>
              # loadJSON J (store s) ''fd_habits'' []) = Inl e"
  shows "addHabit J s = renderHabits J (s\<lparr>doc := (doc s)\<lparr>habitName := Some []\<rparr>\<rparr>)"
  using assms by (simp add: addHabit_def Let_def saveJSON_dropped)

lemma habit_click_dropped:
  assumes "habitsWrap (doc s) = Some view" and "idx < length (hw_cards view)"
    and "hs = loadJSON J (store s) ''fd_habits'' []"
    and "idx < length hs" and "habit_lastDone (hs ! idx) \<noteq> Some (hw_today view)"
    and "saveJSON_try J (store s) ''fd_habits''
           (hs[idx := (hs ! idx)\<lparr>habit_lastDone := Some (hw_today view),
                 habit_streak := Some (or_default (habit_streak (hs ! idx)) 0 + 1)\<rparr>]) = Inl e"
  shows "habit_click J idx s = Inr (renderHabits J s)"
  using assms by (simp add: habit_click_def Let_def saveJSON_dropped)

text \<open>
  Claim C1. For each list-mutating operation (add a task, change a task's checkbox, clear
  the done tasks, wipe all tasks, add a project, add a milestone, add a habit, mark a habit
  done today) that gets as far as its save: when the \<^verbatim>\<open>try\<close> block of that save throws, the
  operation amounts to the re-render alone (an add also empties its input), the store is
  what it was, and the view the re-render leaves is the view of the collection a load
  returned before the operation, not of the collection the operation changed in memory.
\<close>

theorem dropped_write_shows_no_change:
  "(taskInput (doc s) = Some v1 \<and> trim v1 \<noteq> []
      \<and> saveJSON_try Jt (store s) ''fd_tasks''
           (\<lparr>task_text = trim v1, task_done = False, task_minutes = Some 25\<rparr>
              # loadJSON Jt (store s) ''fd_tasks'' []) = Inl e1
    \<longrightarrow> addTask Jt s = renderTasks Jt (updateKPIs Jt (s\<lparr>doc := (doc s)\<lparr>taskInput := Some []\<rparr>\<rparr>))
      \<and> store (addTask Jt s) = store s
      \<and> taskList (doc (addTask Jt s)) =
          map_option (\<lambda>_. task_view_of (loadJSON Jt (store s) ''fd_tasks'' [])) (taskList (doc s)))
   \<and> (taskList (doc s) = Some tv \<and> i2 < length (ul_items tv) \<and> i2 < length (ul_tasks tv)
      \<and> saveJSON_try Jt (store s) ''fd_tasks''
           ((ul_tasks tv)[i2 := (ul_tasks tv ! i2)\<lparr>task_done := \<not> li_checked (ul_items tv ! i2)\<rparr>])
         = Inl e2
    \<longrightarrow> checkbox_change Jt i2 s = Inr (renderTasks Jt (updateKPIs Jt s))
      \<and> store (renderTasks Jt (updateKPIs Jt s)) = store s
      \<and> taskList (doc (renderTasks Jt (updateKPIs Jt s))) =
          Some (task_view_of (loadJSON Jt (store s) ''fd_tasks'' [])))
   \<and> (saveJSON_try Jt (store s) ''fd_tasks''
           (filter (\<lambda>t. \<not> task_done t) (loadJSON Jt (store s) ''fd_tasks'' [])) = Inl e3
    \<longrightarrow> clearDone_click Jt s = renderTasks Jt (updateKPIs Jt s)
      \<and> store (clearDone_click Jt s) = store s
      \<and> taskList (doc (clearDone_click Jt s)) =
          map_option (\<lambda>_. task_view_of (loadJSON Jt (store s) ''fd_tasks'' [])) (taskList (doc s)))
   \<and> (saveJSON_try Jt (store s) ''fd_tasks'' [] = Inl e4
    \<longrightarrow> wipeAll_click Jt s = renderTasks Jt (updateKPIs Jt s)
      \<and> store (wipeAll_click Jt s) = store s
      \<and> taskList (doc (wipeAll_click Jt s)) =
          map_option (\<lambda>_. task_view_of (loadJSON Jt (store s) ''fd_tasks'' [])) (taskList (doc s)))
   \<and> (projName (doc s) = Some v5 \<and> trim v5 \<noteq> []
      \<and> saveJSON_try Jp (store s) ''fd_projects''
           (\<lparr>proj_name = trim v5, proj_milestones = Some []\<rparr>
              # loadJSON Jp (store s) ''fd_projects'' []) = Inl e5
    \<longrightarrow> addProject Jp s = renderProjects Jp (s\<lparr>doc := (doc s)\<lparr>projName := Some []\<rparr>\<rparr>)
      \<and> store (addProject Jp s) = store s
      \<and> projectsWrap (doc (addProject Jp s)) =
          map_option (\<lambda>_. projects_view_of (loadJSON Jp (store s) ''fd_projects'' []))
            (projectsWrap (doc s)))
   \<and> (projectsWrap (doc s) = Some pv \<and> i6 < length (pw_cards pv) \<and> i6 < length (pw_projects pv)
      \<and> trim (pc_inp (pw_cards pv ! i6)) \<noteq> []
      \<and> saveJSON_try Jp (store s) ''fd_projects''
           ((pw_projects pv)[i6 := (pw_projects pv ! i6)\<lparr>proj_milestones :=
              Some (\<lparr>ms_text = trim (pc_inp (pw_cards pv ! i6)), ms_done = False\<rparr>
                # (case proj_milestones (pw_projects pv ! i6) of None \<Rightarrow> [] | Some m \<Rightarrow> m))\<rparr>])
         = Inl e6
    \<longrightarrow> milestone_click Jp i6 s = Inr (renderProjects Jp s)
      \<and> store (renderProjects Jp s) = store s
      \<and> projectsWrap (doc (renderProjects Jp s)) =
          Some (projects_view_of (loadJSON Jp (store s) ''fd_projects'' [])))
   \<and> (habitName (doc s) = Some v7 \<and> trim v7 \<noteq> []
      \<and> saveJSON_try Jh (store s) ''fd_habits''
           (\<lparr>habit_name = trim v7, habit_streak = Some 0, habit_lastDone = None\<rparr>
              # loadJSON Jh (store s) ''fd_habits'' []) = Inl e7
    \<longrightarrow> addHabit Jh s = renderHabits Jh (s\<lparr>doc := (doc s)\<lparr>habitName := Some []\<rparr>\<rparr>)
      \<and> store (addHabit Jh s) = store s
      \<and> habitsWrap (doc (addHabit Jh s)) =
          map_option (\<lambda>_. habits_view_of (todayISO (clock s)) (loadJSON Jh (store s) ''fd_habits'' []))
            (habitsWrap (doc s)))
   \<and> (habitsWrap (doc s) = Some hv \<and> i8 < length (hw_cards hv)
      \<and> i8 < length (loadJSON Jh (store s) ''fd_habits'' [])
      \<and> habit_lastDone (loadJSON Jh (store s) ''fd_habits'' [] ! i8) \<noteq> Some (hw_today hv)
      \<and> saveJSON_try Jh (store s) ''fd_habits''
           ((loadJSON Jh (store s) ''fd_habits'' [])
              [i8 := (loadJSON Jh (store s) ''fd_habits'' [] ! i8)
                 \<lparr>habit_lastDone := Some (hw_today hv),
                  habit_streak :=
                    Some (or_default (habit_streak (loadJSON Jh (store s) ''fd_habits'' [] ! i8)) 0 + 1)\<rparr>])
         = Inl e8
    \<longrightarrow> habit_click Jh i8 s = Inr (renderHabits Jh s)
      \<and> store (renderHabits Jh s) = store s
      \<and> habitsWrap (doc (renderHabits Jh s)) =
          Some (habits_view_of (todayISO (clock s)) (loadJSON Jh (store s) ''fd_habits'' [])))"
proof (intro conjI impI; (elim conjE)?)
  assume "taskInput (doc s) = Some v1" "trim v1 \<noteq> []"
    "saveJSON_try Jt (store s) ''fd_tasks''
           (\<lparr>task_text = trim v1, task_done = False, task_minutes = Some 25\<rparr>
              # loadJSON Jt (store s) ''fd_tasks'' []) = Inl e1"
  then have eq: "addTask Jt s = renderTasks Jt (updateKPIs Jt (s\<lparr>doc := (doc s)\<lparr>taskInput := Some []\<rparr>\<rparr>))"
    by (rule addTask_dropped)
  show "addTask Jt s = renderTasks Jt (updateKPIs Jt (s\<lparr>doc := (doc s)\<lparr>taskInput := Some []\<rparr>\<rparr>))"
    by (rule eq)
  show "store (addTask Jt s) = store s" by (simp add: eq)
  show "taskList (doc (addTask Jt s)) =
          map_option (\<lambda>_. task_view_of (loadJSON Jt (store s) ''fd_tasks'' [])) (taskList (doc s))"
    by (simp add: eq)
next
  assume a: "taskList (doc s) = Some tv" "i2 < length (ul_items tv)" "i2 < length (ul_tasks tv)"
    "saveJSON_try Jt (store s) ''fd_tasks''
           ((ul_tasks tv)[i2 := (ul_tasks tv ! i2)\<lparr>task_done := \<not> li_checked (ul_items tv ! i2)\<rparr>])
         = Inl e2"
  then show "checkbox_change Jt i2 s = Inr (renderTasks Jt (updateKPIs Jt s))"
    by (rule checkbox_change_dropped)
  show "store (renderTasks Jt (updateKPIs Jt s)) = store s" by simp
  show "taskList (doc (renderTasks Jt (updateKPIs Jt s))) =
          Some (task_view_of (loadJSON Jt (store s) ''fd_tasks'' []))"
    using a(1) by simp
next
  assume "saveJSON_try Jt (store s) ''fd_tasks''
           (filter (\<lambda>t. \<not> task_done t) (loadJSON Jt (store s) ''fd_tasks'' [])) = Inl e3"
  then have eq: "clearDone_click Jt s = renderTasks Jt (updateKPIs Jt s)"
    by (rule clearDone_dropped)
  show "clearDone_click Jt s = renderTasks Jt (updateKPIs Jt s)" by (rule eq)
  show "store (clearDone_click Jt s) = store s" by (simp add: eq)
  show "taskList (doc (clearDone_click Jt s)) =
          map_option (\<lambda>_. task_view_of (loadJSON Jt (store s) ''fd_tasks'' [])) (taskList (doc s))"
    by (simp add: eq)
next
  assume "saveJSON_try Jt (store s) ''fd_tasks'' [] = Inl e4"
  then have eq: "wipeAll_click Jt s = renderTasks Jt (updateKPIs Jt s)"
    by (rule wipeAll_dropped)
  show "wipeAll_click Jt s = renderTasks Jt (updateKPIs Jt s)" by (rule eq)
  show "store (wipeAll_click Jt s) = store s" by (simp add: eq)
  show "taskList (doc (wipeAll_click Jt s)) =
          map_option (\<lambda>_. task_view_of (loadJSON Jt (store s) ''fd_tasks'' [])) (taskList (doc s))"
    by (simp add: eq)
next
  assume "projName (doc s) = Some v5" "trim v5 \<noteq> []"
    "saveJSON_try Jp (store s) ''fd_projects''
           (\<lparr>proj_name = trim v5, proj_milestones = Some []\<rparr>
              # loadJSON Jp (store s) ''fd_projects'' []) = Inl e5"
  then have eq: "addProject Jp s = renderProjects Jp (s\<lparr>doc := (doc s)\<lparr>projName := Some []\<rparr>\<rparr>)"
    by (rule addProject_dropped)
  show "addProject Jp s = renderProjects Jp (s\<lparr>doc := (doc s)\<lparr>projName := Some []\<rparr>\<rparr>)" by (rule eq)
  show "store (addProject Jp s) = store s" by (simp add: eq)
  show "projectsWrap (doc (addProject Jp s)) =
          map_option (\<lambda>_. projects_view_of (loadJSON Jp (store s) ''fd_projects'' []))
            (projectsWrap (doc s))"
    by (simp add: eq)
next
  assume a: "projectsWrap (doc s) = Some pv" "i6 < length (pw_cards pv)" "i6 < length (pw_projects pv)"
    "trim (pc_inp (pw_cards pv ! i6)) \<noteq> []"
    "saveJSON_try Jp (store s) ''fd_projects''
           ((pw_projects pv)[i6 := (pw_projects pv ! i6)\<lparr>proj_milestones :=
              Some (\<lparr>ms_text = trim (pc_inp (pw_cards pv ! i6)), ms_done = False\<rparr>
                # (case proj_milestones (pw_projects pv ! i6) of None \<Rightarrow> [] | Some m \<Rightarrow> m))\<rparr>])
         = Inl e6"
  then show "milestone_click Jp i6 s = Inr (renderProjects Jp s)"
    by (rule milestone_click_dropped)
  show "store (renderProjects Jp s) = store s" by simp
  show "projectsWrap (doc (renderProjects Jp s)) =
          Some (projects_view_of (loadJSON Jp (store s) ''fd_projects'' []))"
    using a(1) by simp
next
  assume "habitName (doc s) = Some v7" "trim v7 \<noteq> []"
    "saveJSON_try Jh (store s) ''fd_habits''
           (\<lparr>habit_name = trim v7, habit_streak = Some 0, habit_lastDone = None\<rparr>
              # loadJSON Jh (store s) ''fd_habits'' []) = Inl e7"
  then have eq: "addHabit Jh s = renderHabits Jh (s\<lparr>doc := (doc s)\<lparr>habitName := Some []\<rparr>\<rparr>)"
    by (rule addHabit_dropped)
  show "addHabit Jh s = renderHabits Jh (s\<lparr>doc := (doc s)\<lparr>habitName := Some []\<rparr>\<rparr>)" by (rule eq)
  show "store (addHabit Jh s) = store s" by (simp add: eq)
  show "habitsWrap (doc (addHabit Jh s)) =
          map_option (\<lambda>_. habits_view_of (todayISO (clock s)) (loadJSON Jh (store s) ''fd_habits'' []))
            (habitsWrap (doc s))"
    by (simp add: eq)
next
  assume a: "habitsWrap (doc s) = Some hv" "i8 < length (hw_cards hv)"
    "i8 < length (loadJSON Jh (store s) ''fd_habits'' [])"
    "habit_lastDone (loadJSON Jh (store s) ''fd_habits'' [] ! i8) \<noteq> Some (hw_today hv)"
    "saveJSON_try Jh (store s) ''fd_habits''
           ((loadJSON Jh (store s) ''fd_habits'' [])
              [i8 := (loadJSON Jh (store s) ''fd_habits'' [] ! i8)
                 \<lparr>habit_lastDone := Some (hw_today hv),
                  habit_streak :=
                    Some (or_default (habit_streak (loadJSON Jh (store s) ''fd_habits'' [] ! i8)) 0 + 1)\<rparr>])
         = Inl e8"
  show "habit_click Jh i8 s = Inr (renderHabits Jh s)"
    using habit_click_dropped [OF a(1) a(2) refl a(3) a(4) a(5)] .
  show "store (renderHabits Jh s) = store s" by simp
  show "habitsWrap (doc (renderHabits Jh s)) =
          Some (habits_view_of (todayISO (clock s)) (loadJSON Jh (store s) ''fd_habits'' []))"
    using a(1) by simp
qed

theorem dropped_write_shows_no_change_witness:
  "store (addTask (codec_of four_tasks) demo) = store demo
   \<and> taskList (doc (addTask (codec_of four_tasks) demo)) = Some (task_view_of four_tasks)
   \<and> checkbox_change (codec_of four_tasks) 0 demo
       = Inr (renderTasks (codec_of four_tasks) (updateKPIs (codec_of four_tasks) demo))
   \<and> taskList (doc (renderTasks (codec_of four_tasks) (updateKPIs (codec_of four_tasks) demo)))
       = Some (task_view_of four_tasks)
   \<and> taskList (doc (clearDone_click (codec_of four_tasks) demo)) = Some (task_view_of four_tasks)
   \<and> taskList (doc (wipeAll_click (codec_of four_tasks) demo)) = Some (task_view_of four_tasks)
   \<and> projectsWrap (doc (addProject (codec_of one_project) demo)) = Some (projects_view_of one_project)
   \<and> milestone_click (codec_of one_project) 0 demo = Inr (renderProjects (codec_of one_project) demo)
   \<and> projectsWrap (doc (renderProjects (codec_of one_project) demo)) = Some (projects_view_of one_project)
   \<and> habitsWrap (doc (addHabit (codec_of one_habit) demo)) = Some (habits_view_of ''2024-01-01'' one_habit)
   \<and> habit_click (codec_of one_habit) 0 demo = Inr (renderHabits (codec_of one_habit) demo)
   \<and> habitsWrap (doc (renderHabits (codec_of one_habit) demo))
       = Some (habits_view_of ''2024-01-01'' one_habit)"
  using dropped_write_shows_no_change [where s = demo and Jt = "codec_of four_tasks"
      and Jp = "codec_of one_project" and Jh = "codec_of one_habit"
      and ?v1.0 = "''E''" and ?e1.0 = QuotaExceededError
      and tv = "task_view_of four_tasks" and ?i2.0 = 0 and ?e2.0 = QuotaExceededError
      and ?e3.0 = QuotaExceededError and ?e4.0 = QuotaExceededError
      and ?v5.0 = "''Garden''" and ?e5.0 = QuotaExceededError
      and pv = "\<lparr>pw_cards = [\<lparr>pc_h3 = ''Thesis'', pc_inp = ''draft''\<rparr>], pw_projects = one_project\<rparr>"
      and ?i6.0 = 0 and ?e6.0 = QuotaExceededError
      and ?v7.0 = "''Read''" and ?e7.0 = QuotaExceededError
      and hv = "habits_view_of ''2024-01-01'' one_habit" and ?i8.0 = 0 and ?e8.0 = QuotaExceededError]
  by (simp add: demo_fields demo_loads full_storage_drops todayISO_new_year trim_samples
      sample_sizes)

section \<open>Done today, twice\<close>

lemma habit_click_current:
  assumes "habitsWrap (doc s) = Some hv" and "hw_today hv = todayISO (clock s)"
    and "idx < length (loadJSON J (store s) ''fd_habits'' [])"
    and "habit_lastDone (loadJSON J (store s) ''fd_habits'' [] ! idx) = Some (todayISO (clock s))"
  shows "habit_click J idx s = Inr s"
  using assms by (simp add: habit_click_def Let_def)

lemma habit_click_cases:
  assumes "habit_click J idx s = Inr s1"
  shows "s1 = s \<or> (\<exists>st. s1 = renderHabits J (s\<lparr>store := st\<rparr>) \<and> habitsWrap (doc s) \<noteq> None)"
  using assms
  by (auto simp add: habit_click_def Let_def split: option.splits if_splits)

lemma habit_click_no_card:
  assumes "habitsWrap (doc s) = Some hv" and "length (hw_cards hv) \<le> idx"
  shows "habit_click J idx s = Inr s"
  using assms by (simp add: habit_click_def)

lemma habit_click_after_render:
  assumes "s1 = renderHabits J (s\<lparr>store := st\<rparr>)" and "habitsWrap (doc s) \<noteq> None"
    and "habit_lastDone (loadJSON J (store s1) ''fd_habits'' [] ! idx) = Some (todayISO (clock s1))"
  shows "habit_click J idx s1 = Inr s1"
proof -
  let ?hs = "loadJSON J st ''fd_habits'' []"
  have st: "store s1 = st" and ck: "clock s1 = clock s"
    using assms(1) by simp_all
  have view: "habitsWrap (doc s1) = Some (habits_view_of (todayISO (clock s)) ?hs)"
    using assms(1,2) by auto
  show ?thesis
  proof (cases "idx < length ?hs")
    case True
    have "hw_today (habits_view_of (todayISO (clock s)) ?hs) = todayISO (clock s1)"
      by (simp add: habits_view_of_def ck)
    then show ?thesis
      using habit_click_current [OF view, of idx J] True assms(3) by (simp add: st)
  next
    case False
    then have "length (hw_cards (habits_view_of (todayISO (clock s)) ?hs)) \<le> idx"
      by (simp add: habits_view_of_def)
    then show ?thesis using habit_click_no_card [OF view] by simp
  qed
qed

lemma habits_demo_fields:
  "habitsWrap (doc (habits_demo d hs)) = Some (habits_view_of d hs)"
  "store (habits_demo d hs) = empty_storage\<lparr>entries := [''fd_habits'' \<mapsto> ''[a]'']\<rparr>"
  "clock (habits_demo d hs) = new_year"
  by (simp_all add: habits_demo_def script_start_def blank_page_def)

lemma codec_of3_loads:
  "loadJSON (codec_of3 a b c) (empty_storage\<lparr>entries := [''fd_habits'' \<mapsto> ''[a]'']\<rparr>) ''fd_habits'' [] = a"
  "loadJSON (codec_of3 a b c) (empty_storage\<lparr>entries := [''fd_habits'' \<mapsto> ''[b]'']\<rparr>) ''fd_habits'' [] = b"
  "loadJSON (codec_of3 a b c) (empty_storage\<lparr>entries := [''fd_habits'' \<mapsto> ''[c]'']\<rparr>) ''fd_habits'' [] = c"
  by (simp_all add: adapter_defs codec_of3_def empty_storage_def)

lemma codec_of3_saves:
  "saveJSON (codec_of3 a b c) (empty_storage\<lparr>entries := m\<rparr>) ''fd_habits'' a
     = empty_storage\<lparr>entries := m(''fd_habits'' \<mapsto> ''[a]'')\<rparr>"
  "a \<noteq> b \<Longrightarrow> saveJSON (codec_of3 a b c) (empty_storage\<lparr>entries := m\<rparr>) ''fd_habits'' b
     = empty_storage\<lparr>entries := m(''fd_habits'' \<mapsto> ''[b]'')\<rparr>"
  "a \<noteq> c \<Longrightarrow> b \<noteq> c \<Longrightarrow> saveJSON (codec_of3 a b c) (empty_storage\<lparr>entries := m\<rparr>) ''fd_habits'' c
     = empty_storage\<lparr>entries := m(''fd_habits'' \<mapsto> ''[c]'')\<rparr>"
  by (simp_all add: adapter_defs codec_of3_def empty_storage_def)

lemma first_click_fresh:
  "habit_click (codec_of3 (run_habit 0 None) (run_habit 1 (Some ''2024-01-01'')) [])
      0 (habits_demo ''2024-01-01'' (run_habit 0 None))
   = Inr (renderHabits (codec_of3 (run_habit 0 None) (run_habit 1 (Some ''2024-01-01'')) [])
       ((habits_demo ''2024-01-01'' (run_habit 0 None))
          \<lparr>store := empty_storage\<lparr>entries := [''fd_habits'' \<mapsto> ''[b]'']\<rparr>\<rparr>))"
proof -
  have ne: "run_habit 0 None \<noteq> run_habit 1 (Some ''2024-01-01'')"
    by (simp add: run_habit_def)
  have upd: "(run_habit 0 None)[0 := (run_habit 0 None ! 0)
      \<lparr>habit_lastDone := Some ''2024-01-01'',
       habit_streak := Some (or_default (habit_streak (run_habit 0 None ! 0)) 0 + 1)\<rparr>]
    = run_habit 1 (Some ''2024-01-01'')"
    by (simp add: run_habit_def)
  have len: "length (run_habit 0 None) = 1" "habit_lastDone (run_habit 0 None ! 0) = None"
    "run_habit 0 None \<noteq> []"
    by (simp_all add: run_habit_def)
  show ?thesis
    by (simp add: habit_click_def habits_demo_fields codec_of3_loads Let_def habits_view_of_def
        len upd codec_of3_saves(2) [OF ne])
qed

text \<open>
  What does hold of the button of a habit. When a click has returned and the stored habit's
  \<^verbatim>\<open>lastDone\<close> is then the current calendar date, a second click changes nothing at all; and
  a click changes nothing whenever the habits view was rendered on the current date and the
  stored habit's \<^verbatim>\<open>lastDone\<close> is that date.
\<close>

lemma done_today_when_rendered_today:
  "(habit_click J idx s = Inr s1
      \<and> idx < length (loadJSON J (store s1) ''fd_habits'' [])
      \<and> habit_lastDone (loadJSON J (store s1) ''fd_habits'' [] ! idx) = Some (todayISO (clock s1))
    \<longrightarrow> habit_click J idx s1 = Inr s1 \<and> clock s1 = clock s)
   \<and> (habitsWrap (doc s) = Some hv \<and> hw_today hv = todayISO (clock s)
      \<and> idx < length (loadJSON J (store s) ''fd_habits'' [])
      \<and> habit_lastDone (loadJSON J (store s) ''fd_habits'' [] ! idx) = Some (todayISO (clock s))
    \<longrightarrow> habit_click J idx s = Inr s)"
proof (intro conjI impI; (elim conjE)?)
  assume first: "habit_click J idx s = Inr s1"
    and today: "habit_lastDone (loadJSON J (store s1) ''fd_habits'' [] ! idx) = Some (todayISO (clock s1))"
  from habit_click_cases [OF first]
  show "habit_click J idx s1 = Inr s1"
  proof
    assume "s1 = s"
    with first show ?thesis by simp
  next
    assume "\<exists>st. s1 = renderHabits J (s\<lparr>store := st\<rparr>) \<and> habitsWrap (doc s) \<noteq> None"
    then obtain st where "s1 = renderHabits J (s\<lparr>store := st\<rparr>)" "habitsWrap (doc s) \<noteq> None"
      by blast
    then show ?thesis using today by (rule habit_click_after_render)
  qed
  from habit_click_cases [OF first] show "clock s1 = clock s" by auto
next
  assume "habitsWrap (doc s) = Some hv" "hw_today hv = todayISO (clock s)"
    "idx < length (loadJSON J (store s) ''fd_habits'' [])"
    "habit_lastDone (loadJSON J (store s) ''fd_habits'' [] ! idx) = Some (todayISO (clock s))"
  then show "habit_click J idx s = Inr s" by (rule habit_click_current)
qed

lemma done_today_when_rendered_today_example:
  "habit_click (codec_of3 (run_habit 0 None) (run_habit 1 (Some ''2024-01-01'')) [])
      0 (renderHabits (codec_of3 (run_habit 0 None) (run_habit 1 (Some ''2024-01-01'')) [])
       ((habits_demo ''2024-01-01'' (run_habit 0 None))
          \<lparr>store := empty_storage\<lparr>entries := [''fd_habits'' \<mapsto> ''[b]'']\<rparr>\<rparr>))
   = Inr (renderHabits (codec_of3 (run_habit 0 None) (run_habit 1 (Some ''2024-01-01'')) [])
       ((habits_demo ''2024-01-01'' (run_habit 0 None))
          \<lparr>store := empty_storage\<lparr>entries := [''fd_habits'' \<mapsto> ''[b]'']\<rparr>\<rparr>))
   \<and> habit_click (codec_of3 (run_habit 1 (Some ''2024-01-01'')) [] [])
        0 (habits_demo ''2024-01-01'' (run_habit 1 (Some ''2024-01-01'')))
     = Inr (habits_demo ''2024-01-01'' (run_habit 1 (Some ''2024-01-01'')))"
proof -
  let ?J = "codec_of3 (run_habit 0 None) (run_habit 1 (Some ''2024-01-01'')) []"
  let ?s1 = "renderHabits ?J ((habits_demo ''2024-01-01'' (run_habit 0 None))
          \<lparr>store := empty_storage\<lparr>entries := [''fd_habits'' \<mapsto> ''[b]'']\<rparr>\<rparr>)"
  have l1: "loadJSON ?J (store ?s1) ''fd_habits'' [] = run_habit 1 (Some ''2024-01-01'')"
    by (simp add: codec_of3_loads)
  have c1: "todayISO (clock ?s1) = ''2024-01-01''"
    by (simp add: habits_demo_fields todayISO_new_year)
  have r: "length (run_habit 1 (Some ''2024-01-01'')) = 1"
    "habit_lastDone (run_habit 1 (Some ''2024-01-01'') ! 0) = Some ''2024-01-01''"
    "run_habit 1 (Some ''2024-01-01'') \<noteq> []"
    by (simp_all add: run_habit_def)
  have a: "habit_click ?J 0 ?s1 = Inr ?s1"
    using done_today_when_rendered_today [where J = ?J and idx = 0
        and s = "habits_demo ''2024-01-01'' (run_habit 0 None)" and ?s1.0 = ?s1]
      first_click_fresh l1 c1 r by simp
  let ?K = "codec_of3 (run_habit 1 (Some ''2024-01-01'')) [] []"
  let ?t = "habits_demo ''2024-01-01'' (run_habit 1 (Some ''2024-01-01''))"
  have b: "habit_click ?K 0 ?t = Inr ?t"
    using done_today_when_rendered_today [where J = ?K and idx = 0 and s = ?t
        and hv = "habits_view_of ''2024-01-01'' (run_habit 1 (Some ''2024-01-01''))"] r
    by (simp add: habits_demo_fields codec_of3_loads todayISO_new_year habits_view_of_def)
  from a b show ?thesis by simp
qed

text \<open>The two evaluations below are on a habits view rendered on 2023-12-31, with the
  clock at 2024-01-01 throughout.\<close>

lemma stale_render_two_clicks:
  "habit_click (codec_of3 (run_habit 0 None) (run_habit 1 (Some ''2023-12-31''))
        (run_habit 2 (Some ''2024-01-01'')))
      0 (habits_demo ''2023-12-31'' (run_habit 0 None))
   = Inr (renderHabits (codec_of3 (run_habit 0 None) (run_habit 1 (Some ''2023-12-31''))
            (run_habit 2 (Some ''2024-01-01'')))
       ((habits_demo ''2023-12-31'' (run_habit 0 None))
          \<lparr>store := empty_storage\<lparr>entries := [''fd_habits'' \<mapsto> ''[b]'']\<rparr>\<rparr>))
   \<and> habit_click (codec_of3 (run_habit 0 None) (run_habit 1 (Some ''2023-12-31''))
        (run_habit 2 (Some ''2024-01-01'')))
      0 (renderHabits (codec_of3 (run_habit 0 None) (run_habit 1 (Some ''2023-12-31''))
            (run_habit 2 (Some ''2024-01-01'')))
       ((habits_demo ''2023-12-31'' (run_habit 0 None))
          \<lparr>store := empty_storage\<lparr>entries := [''fd_habits'' \<mapsto> ''[b]'']\<rparr>\<rparr>))
   = Inr (renderHabits (codec_of3 (run_habit 0 None) (run_habit 1 (Some ''2023-12-31''))
            (run_habit 2 (Some ''2024-01-01'')))
       ((habits_demo ''2023-12-31'' (run_habit 0 None))
          \<lparr>store := empty_storage\<lparr>entries := [''fd_habits'' \<mapsto> ''[c]'']\<rparr>\<rparr>))"
proof -
  let ?J = "codec_of3 (run_habit 0 None) (run_habit 1 (Some ''2023-12-31''))
        (run_habit 2 (Some ''2024-01-01''))"
  have ne: "run_habit 0 None \<noteq> run_habit 1 (Some ''2023-12-31'')"
    "run_habit 0 None \<noteq> run_habit 2 (Some ''2024-01-01'')"
    "run_habit 1 (Some ''2023-12-31'') \<noteq> run_habit 2 (Some ''2024-01-01'')"
    by (simp_all add: run_habit_def)
  have upd: "(run_habit n d)[0 := (run_habit n d ! 0)
      \<lparr>habit_lastDone := Some t,
       habit_streak := Some (or_default (habit_streak (run_habit n d ! 0)) 0 + 1)\<rparr>]
    = run_habit (or_default (Some n) 0 + 1) (Some t)" for n d t
    by (simp add: run_habit_def)
  have len: "length (run_habit n d) = 1" "habit_lastDone (run_habit n d ! 0) = d"
    "run_habit n d \<noteq> []" for n d
    by (simp_all add: run_habit_def)
  have first: "habit_click ?J 0 (habits_demo ''2023-12-31'' (run_habit 0 None))
     = Inr (renderHabits ?J ((habits_demo ''2023-12-31'' (run_habit 0 None))
          \<lparr>store := empty_storage\<lparr>entries := [''fd_habits'' \<mapsto> ''[b]'']\<rparr>\<rparr>))"
    by (simp add: habit_click_def habits_demo_fields codec_of3_loads Let_def habits_view_of_def
        len upd codec_of3_saves(2) [OF ne(1)])
  have second: "habit_click ?J 0 (renderHabits ?J ((habits_demo ''2023-12-31'' (run_habit 0 None))
          \<lparr>store := empty_storage\<lparr>entries := [''fd_habits'' \<mapsto> ''[b]'']\<rparr>\<rparr>))
     = Inr (renderHabits ?J ((habits_demo ''2023-12-31'' (run_habit 0 None))
          \<lparr>store := empty_storage\<lparr>entries := [''fd_habits'' \<mapsto> ''[c]'']\<rparr>\<rparr>))"
    by (simp add: habit_click_def renderHabits_def habits_demo_fields codec_of3_loads Let_def
        habits_view_of_def len upd todayISO_new_year codec_of3_saves(3) [OF ne(2) ne(3)])
  from first second show ?thesis by simp
qed

lemma stale_render_done_already:
  "habit_click (codec_of3 (run_habit 1 (Some ''2024-01-01'')) (run_habit 2 (Some ''2023-12-31'')) [])
      0 (habits_demo ''2023-12-31'' (run_habit 1 (Some ''2024-01-01'')))
   = Inr (renderHabits (codec_of3 (run_habit 1 (Some ''2024-01-01'')) (run_habit 2 (Some ''2023-12-31'')) [])
       ((habits_demo ''2023-12-31'' (run_habit 1 (Some ''2024-01-01'')))
          \<lparr>store := empty_storage\<lparr>entries := [''fd_habits'' \<mapsto> ''[b]'']\<rparr>\<rparr>))
   \<and> todayISO (clock (habits_demo ''2023-12-31'' (run_habit 1 (Some ''2024-01-01'')))) = ''2024-01-01''
   \<and> loadJSON (codec_of3 (run_habit 1 (Some ''2024-01-01'')) (run_habit 2 (Some ''2023-12-31'')) [])
        (empty_storage\<lparr>entries := [''fd_habits'' \<mapsto> ''[b]'']\<rparr>) ''fd_habits'' []
      = [\<lparr>habit_name = ''Run'', habit_streak = Some 2, habit_lastDone = Some ''2023-12-31''\<rparr>]"
proof -
  have ne: "run_habit 1 (Some ''2024-01-01'') \<noteq> run_habit 2 (Some ''2023-12-31'')"
    by (simp add: run_habit_def)
  have upd: "(run_habit n d)[0 := (run_habit n d ! 0)
      \<lparr>habit_lastDone := Some t,
       habit_streak := Some (or_default (habit_streak (run_habit n d ! 0)) 0 + 1)\<rparr>]
    = run_habit (or_default (Some n) 0 + 1) (Some t)" for n d t
    by (simp add: run_habit_def)
  have len: "length (run_habit n d) = 1" "habit_lastDone (run_habit n d ! 0) = d"
    "run_habit n d \<noteq> []" for n d
    by (simp_all add: run_habit_def)
  have click: "habit_click (codec_of3 (run_habit 1 (Some ''2024-01-01'')) (run_habit 2 (Some ''2023-12-31'')) [])
      0 (habits_demo ''2023-12-31'' (run_habit 1 (Some ''2024-01-01'')))
   = Inr (renderHabits (codec_of3 (run_habit 1 (Some ''2024-01-01'')) (run_habit 2 (Some ''2023-12-31'')) [])
       ((habits_demo ''2023-12-31'' (run_habit 1 (Some ''2024-01-01'')))
          \<lparr>store := empty_storage\<lparr>entries := [''fd_habits'' \<mapsto> ''[b]'']\<rparr>\<rparr>))"
    by (simp add: habit_click_def habits_demo_fields codec_of3_loads Let_def habits_view_of_def
        len upd codec_of3_saves(2) [OF ne])
  from click show ?thesis
    by (simp add: habits_demo_fields todayISO_new_year codec_of3_loads run_habit_def)
qed

text \<open>
  Claim C6, evaluated on a habits view rendered on 2023-12-31 with the clock at 2024-01-01.
  The guard of the listener compares with the \<^verbatim>\<open>today\<close> of the render that built the
  button, not with the date at the click. First, on the habit with streak 0 and no
  \<^verbatim>\<open>lastDone\<close>: the first click stores 2023-12-31 with streak 1 and re-renders, and a second
  click on the same calendar day stores 2024-01-01 with streak 2. Second, on the habit
  whose stored \<^verbatim>\<open>lastDone\<close> already is the current date 2024-01-01, with streak 1: a click
  stores 2023-12-31 with streak 2. In neither case is the operation a no-op the second
  time on that day.
\<close>

theorem done_today_stale_render:
  "(habit_click (codec_of3 (run_habit 0 None) (run_habit 1 (Some ''2023-12-31''))
        (run_habit 2 (Some ''2024-01-01'')))
      0 (habits_demo ''2023-12-31'' (run_habit 0 None))
   = Inr (renderHabits (codec_of3 (run_habit 0 None) (run_habit 1 (Some ''2023-12-31''))
            (run_habit 2 (Some ''2024-01-01'')))
       ((habits_demo ''2023-12-31'' (run_habit 0 None))
          \<lparr>store := empty_storage\<lparr>entries := [''fd_habits'' \<mapsto> ''[b]'']\<rparr>\<rparr>))
   \<and> habit_click (codec_of3 (run_habit 0 None) (run_habit 1 (Some ''2023-12-31''))
        (run_habit 2 (Some ''2024-01-01'')))
      0 (renderHabits (codec_of3 (run_habit 0 None) (run_habit 1 (Some ''2023-12-31''))
            (run_habit 2 (Some ''2024-01-01'')))
       ((habits_demo ''2023-12-31'' (run_habit 0 None))
          \<lparr>store := empty_storage\<lparr>entries := [''fd_habits'' \<mapsto> ''[b]'']\<rparr>\<rparr>))
   = Inr (renderHabits (codec_of3 (run_habit 0 None) (run_habit 1 (Some ''2023-12-31''))
            (run_habit 2 (Some ''2024-01-01'')))
       ((habits_demo ''2023-12-31'' (run_habit 0 None))
          \<lparr>store := empty_storage\<lparr>entries := [''fd_habits'' \<mapsto> ''[c]'']\<rparr>\<rparr>)))
   \<and> (habit_click (codec_of3 (run_habit 1 (Some ''2024-01-01'')) (run_habit 2 (Some ''2023-12-31'')) [])
      0 (habits_demo ''2023-12-31'' (run_habit 1 (Some ''2024-01-01'')))
   = Inr (renderHabits (codec_of3 (run_habit 1 (Some ''2024-01-01'')) (run_habit 2 (Some ''2023-12-31'')) [])
       ((habits_demo ''2023-12-31'' (run_habit 1 (Some ''2024-01-01'')))
          \<lparr>store := empty_storage\<lparr>entries := [''fd_habits'' \<mapsto> ''[b]'']\<rparr>\<rparr>))
   \<and> todayISO (clock (habits_demo ''2023-12-31'' (run_habit 1 (Some ''2024-01-01'')))) = ''2024-01-01''
   \<and> loadJSON (codec_of3 (run_habit 1 (Some ''2024-01-01'')) (run_habit 2 (Some ''2023-12-31'')) [])
        (empty_storage\<lparr>entries := [''fd_habits'' \<mapsto> ''[b]'']\<rparr>) ''fd_habits'' []
      = [\<lparr>habit_name = ''Run'', habit_streak = Some 2, habit_lastDone = Some ''2023-12-31''\<rparr>])
   \<and> (loadJSON (codec_of3 (run_habit 0 None) (run_habit 1 (Some ''2023-12-31''))
          (run_habit 2 (Some ''2024-01-01'')))
        (empty_storage\<lparr>entries := [''fd_habits'' \<mapsto> ''[b]'']\<rparr>) ''fd_habits'' []
      = [\<lparr>habit_name = ''Run'', habit_streak = Some 1, habit_lastDone = Some ''2023-12-31''\<rparr>]
   \<and> loadJSON (codec_of3 (run_habit 0 None) (run_habit 1 (Some ''2023-12-31''))
          (run_habit 2 (Some ''2024-01-01'')))
        (empty_storage\<lparr>entries := [''fd_habits'' \<mapsto> ''[c]'']\<rparr>) ''fd_habits'' []
      = [\<lparr>habit_name = ''Run'', habit_streak = Some 2, habit_lastDone = Some ''2024-01-01''\<rparr>]
   \<and> todayISO (clock (habits_demo ''2023-12-31'' (run_habit 0 None))) = ''2024-01-01'')"
proof -
  have loads:
    "loadJSON (codec_of3 (run_habit 0 None) (run_habit 1 (Some ''2023-12-31''))
          (run_habit 2 (Some ''2024-01-01'')))
        (empty_storage\<lparr>entries := [''fd_habits'' \<mapsto> ''[b]'']\<rparr>) ''fd_habits'' []
      = [\<lparr>habit_name = ''Run'', habit_streak = Some 1, habit_lastDone = Some ''2023-12-31''\<rparr>]
   \<and> loadJSON (codec_of3 (run_habit 0 None) (run_habit 1 (Some ''2023-12-31''))
          (run_habit 2 (Some ''2024-01-01'')))
        (empty_storage\<lparr>entries := [''fd_habits'' \<mapsto> ''[c]'']\<rparr>) ''fd_habits'' []
      = [\<lparr>habit_name = ''Run'', habit_streak = Some 2, habit_lastDone = Some ''2024-01-01''\<rparr>]
   \<and> todayISO (clock (habits_demo ''2023-12-31'' (run_habit 0 None))) = ''2024-01-01''"
    by (simp add: codec_of3_loads habits_demo_fields todayISO_new_year run_habit_def)
  show ?thesis
    by (rule conjI [OF stale_render_two_clicks conjI [OF stale_render_done_already loads]])
qed

section \<open>The list operations leave the interval timers alone\<close>

text \<open>No list operation and no render touches \<^verbatim>\<open>tick\<close> or the interval timers: the
  timer events are the only ones that matter for the callback.\<close>

lemma one_callback_store [simp]: "one_callback (s\<lparr>store := st\<rparr>) = one_callback s"
  by (rule one_callback_cong; simp)

lemma one_callback_renders [simp]:
  "one_callback (updateKPIs Jt s) = one_callback s"
  "one_callback (renderTasks Jt s) = one_callback s"
  "one_callback (renderProjects Jp s) = one_callback s"
  "one_callback (renderHabits Jh s) = one_callback s"
  by (rule one_callback_cong; simp)+

lemma list_operations_keep_callback:
  "one_callback (addTask Jt s) = one_callback s"
  "one_callback (clearDone_click Jt s) = one_callback s"
  "one_callback (wipeAll_click Jt s) = one_callback s"
  "one_callback (addProject Jp s) = one_callback s"
  "one_callback (addHabit Jh s) = one_callback s"
  "checkbox_change Jt idx s = Inr s' \<Longrightarrow> one_callback s' = one_callback s"
  "milestone_click Jp idx s = Inr s' \<Longrightarrow> one_callback s' = one_callback s"
  "habit_click Jh idx s = Inr s' \<Longrightarrow> one_callback s' = one_callback s"
  by (auto simp add: addTask_def clearDone_click_def wipeAll_click_def addProject_def addHabit_def
      checkbox_change_def milestone_click_def habit_click_def Let_def
      split: option.splits if_splits)

end
